theory Spec2Isabelle
  imports Main "HOL-Library.Word" "HOL-Library.Char_ord" "HOL-Library.List_Lexorder"
begin

unbundle bit_operations_syntax

section \<open>Errors, time and the keyed store\<close>

text \<open>
  A Go \<open>error\<close> value. An API status error carries the reason the server gave
  (\<open>NotFound\<close>, \<open>Conflict\<close>, ...) and a message; an error built by
  \<open>fmt.Errorf\<close> carries its message only. \<open>nil\<close> is \<open>None\<close> of \<open>error option\<close>.
\<close>

datatype error = StatusError string string | ErrorString string

fun Error_msg :: "error \<Rightarrow> string" where
  "Error_msg (StatusError reason msg) = msg"
| "Error_msg (ErrorString msg) = msg"

text \<open>
  \<open>time.Time\<close>: the instant in nanoseconds, and the rest of the struct (location,
  monotonic reading), which \<open>==\<close> compares and \<open>Before\<close> ignores.
\<close>

record Time =
  instant :: int
  zone :: string

definition maxDuration :: int where
  "maxDuration = 2 ^ 63 - 1"

definition minDuration :: int where
  "minDuration = - (2 ^ 63)"

text \<open>\<open>Time.Sub\<close>: the duration \<open>t - u\<close> in nanoseconds, saturated to the int64 range.\<close>

definition Sub :: "Time \<Rightarrow> Time \<Rightarrow> int" where
  "Sub t u =
     (let d = instant t - instant u
      in if d > maxDuration then maxDuration
         else if d < minDuration then minDuration
         else d)"

text \<open>\<open>clock.RealClock{}.Since(t)\<close>, with the reading of the clock as an argument.\<close>

definition Since :: "Time \<Rightarrow> Time \<Rightarrow> int" where
  "Since now t = Sub now t"

definition Before :: "Time \<Rightarrow> Time \<Rightarrow> bool" where
  "Before t u = (instant t < instant u)"

definition ExpectationsTimeout :: int where
  "ExpectationsTimeout = 5 * (60 * 1000000000)"

text \<open>
  \<open>cache.Store\<close>, the keyed store the expectations are kept in: \<open>items\<close> is the map
  behind it. The interface lets a read or a write fail; \<open>readFault\<close> gives, for a key,
  the triple a failing \<open>GetByKey\<close> returns (item, exists and the non-nil error), and
  \<open>writeFault\<close> the error of a rejected \<open>Add\<close> or \<open>Delete\<close>. The store built by
  \<open>cache.NewStore\<close> has no fault.
\<close>

record 'a Store =
  items :: "string \<rightharpoonup> 'a"
  readFault :: "string \<rightharpoonup> ('a option \<times> bool \<times> error)"
  writeFault :: "string \<rightharpoonup> error"

definition NewStore :: "'a Store" where
  "NewStore = \<lparr>items = Map.empty, readFault = Map.empty, writeFault = Map.empty\<rparr>"

definition GetByKey :: "'a Store \<Rightarrow> string \<Rightarrow> 'a option \<times> bool \<times> error option" where
  "GetByKey s k =
     (case readFault s k of
        Some (item, exists, e) \<Rightarrow> (item, exists, Some e)
      | None \<Rightarrow>
          (case items s k of
             None \<Rightarrow> (None, False, None)
           | Some item \<Rightarrow> (Some item, True, None)))"

definition Add_store :: "('a \<Rightarrow> string) \<Rightarrow> 'a Store \<Rightarrow> 'a \<Rightarrow> error option \<times> 'a Store" where
  "Add_store keyFunc s obj =
     (let k = keyFunc obj
      in case writeFault s k of
           Some e \<Rightarrow> (Some e, s)
         | None \<Rightarrow> (None, s\<lparr>items := (items s)(k \<mapsto> obj)\<rparr>))"

definition Delete_store :: "('a \<Rightarrow> string) \<Rightarrow> 'a Store \<Rightarrow> 'a \<Rightarrow> error option \<times> 'a Store" where
  "Delete_store keyFunc s obj =
     (let k = keyFunc obj
      in case writeFault s k of
           Some e \<Rightarrow> (Some e, s)
         | None \<Rightarrow> (None, s\<lparr>items := (items s)(k := None)\<rparr>))"

section \<open>ControlleeExpectations and ContExpectations\<close>

text \<open>
  The counters are int64 (\<open>64 word\<close>, read signed); Go's \<open>int\<close> arguments are taken
  as 64 bits wide, so that \<open>int64(add)\<close> is the identity.
\<close>

record ControlleeExpectations =
  add :: "64 word"
  del :: "64 word"
  key :: string
  timestamp :: Time

definition ExpKeyFunc :: "ControlleeExpectations \<Rightarrow> string" where
  "ExpKeyFunc e = key e"

text \<open>\<open>exp.Add(add, del)\<close>: both counters move, the timestamp stays.\<close>

definition Add_exp :: "ControlleeExpectations \<Rightarrow> 64 word \<Rightarrow> 64 word \<Rightarrow> ControlleeExpectations" where
  "Add_exp exp a d = exp\<lparr>add := add exp + a, del := del exp + d\<rparr>"

definition Fulfilled :: "ControlleeExpectations \<Rightarrow> bool" where
  "Fulfilled exp = (sint (add exp) \<le> 0 \<and> sint (del exp) \<le> 0)"

definition isExpired :: "Time \<Rightarrow> ControlleeExpectations \<Rightarrow> bool" where
  "isExpired now exp = (Since now (timestamp exp) > ExpectationsTimeout)"

type_synonym ContExpectations = "ControlleeExpectations Store"

definition NewContExpectations :: ContExpectations where
  "NewContExpectations = NewStore"

text \<open>
  \<open>GetExpectations\<close>: the \<open>err\<close> that the if-statement declares with \<open>:=\<close> is a new
  variable; the \<open>err\<close> returned on the last line is the outer one, which is never
  assigned.
\<close>

definition GetExpectations ::
  "ContExpectations \<Rightarrow> string \<Rightarrow> ControlleeExpectations option \<times> bool \<times> error option" where
  "GetExpectations r controllerKey =
     (let err = None
      in case GetByKey r controllerKey of
           (exp, exists, err') \<Rightarrow>
             if err' = None \<and> exists then (exp, True, None)
             else (None, False, err))"

definition DeleteExpectations :: "ContExpectations \<Rightarrow> string \<Rightarrow> ContExpectations" where
  "DeleteExpectations r controllerKey =
     (case GetByKey r controllerKey of
        (Some exp, True, None) \<Rightarrow> snd (Delete_store ExpKeyFunc r exp)
      | _ \<Rightarrow> r)"

text \<open>The line \<open>SatisfiedExpectations\<close> writes to the log on each of its branches.\<close>

datatype LogLine =
    LogFulfilled ControlleeExpectations
  | LogExpired ControlleeExpectations
  | LogStillWaiting ControlleeExpectations
  | LogErrorForcingSync error
  | LogNeverRecorded string

definition SatisfiedExpectations_log :: "Time \<Rightarrow> ContExpectations \<Rightarrow> string \<Rightarrow> LogLine \<times> bool" where
  "SatisfiedExpectations_log now r controllerKey =
     (case GetExpectations r controllerKey of
        (Some exp, True, err) \<Rightarrow>
          if Fulfilled exp then (LogFulfilled exp, True)
          else if isExpired now exp then (LogExpired exp, True)
          else (LogStillWaiting exp, False)
      | (_, _, Some e) \<Rightarrow> (LogErrorForcingSync e, True)
      | _ \<Rightarrow> (LogNeverRecorded controllerKey, True))"

definition SatisfiedExpectations :: "Time \<Rightarrow> ContExpectations \<Rightarrow> string \<Rightarrow> bool" where
  "SatisfiedExpectations now r controllerKey = snd (SatisfiedExpectations_log now r controllerKey)"

definition SetExpectations ::
  "Time \<Rightarrow> ContExpectations \<Rightarrow> string \<Rightarrow> 64 word \<Rightarrow> 64 word \<Rightarrow> error option \<times> ContExpectations" where
  "SetExpectations now r controllerKey a d =
     (let exp = \<lparr>add = a, del = d, key = controllerKey, timestamp = now\<rparr>
      in Add_store ExpKeyFunc r exp)"

definition ExpectCreations ::
  "Time \<Rightarrow> ContExpectations \<Rightarrow> string \<Rightarrow> 64 word \<Rightarrow> error option \<times> ContExpectations" where
  "ExpectCreations now r controllerKey adds = SetExpectations now r controllerKey adds 0"

definition ExpectDeletions ::
  "Time \<Rightarrow> ContExpectations \<Rightarrow> string \<Rightarrow> 64 word \<Rightarrow> error option \<times> ContExpectations" where
  "ExpectDeletions now r controllerKey dels = SetExpectations now r controllerKey 0 dels"

text \<open>
  \<open>LowerExpectations\<close> and \<open>RaiseExpectations\<close> change the entry through the pointer
  the store holds: the entry under the key is updated in place.
\<close>

definition LowerExpectations :: "ContExpectations \<Rightarrow> string \<Rightarrow> 64 word \<Rightarrow> 64 word \<Rightarrow> ContExpectations" where
  "LowerExpectations r controllerKey a d =
     (case GetExpectations r controllerKey of
        (Some exp, True, None) \<Rightarrow> r\<lparr>items := (items r)(controllerKey \<mapsto> Add_exp exp (- a) (- d))\<rparr>
      | _ \<Rightarrow> r)"

definition RaiseExpectations :: "ContExpectations \<Rightarrow> string \<Rightarrow> 64 word \<Rightarrow> 64 word \<Rightarrow> ContExpectations" where
  "RaiseExpectations r controllerKey a d =
     (case GetExpectations r controllerKey of
        (Some exp, True, None) \<Rightarrow> r\<lparr>items := (items r)(controllerKey \<mapsto> Add_exp exp a d)\<rparr>
      | _ \<Rightarrow> r)"

definition CreationObserved :: "ContExpectations \<Rightarrow> string \<Rightarrow> ContExpectations" where
  "CreationObserved r controllerKey = LowerExpectations r controllerKey 1 0"

definition DeletionObserved :: "ContExpectations \<Rightarrow> string \<Rightarrow> ContExpectations" where
  "DeletionObserved r controllerKey = LowerExpectations r controllerKey 0 1"

section \<open>UIDTrackingContExpectations\<close>

text \<open>
  \<open>UIDSet\<close>: the embedded \<open>sets.String\<close> and the key. The wrapper holds the wrapped
  expectations and its own store of UID sets; the mutex is not modelled (every
  operation here runs from start to end on the state it is given).
\<close>

record UIDSet =
  String :: "string set"
  key_uid :: string

definition UIDSetKeyFunc :: "UIDSet \<Rightarrow> string" where
  "UIDSetKeyFunc u = key_uid u"

record UIDTrackingContExpectations =
  ExpectationsInterface :: ContExpectations
  uidStore :: "UIDSet Store"

definition NewUIDTrackingContExpectations :: "ContExpectations \<Rightarrow> UIDTrackingContExpectations" where
  "NewUIDTrackingContExpectations ce = \<lparr>ExpectationsInterface = ce, uidStore = NewStore\<rparr>"

text \<open>\<open>GetUIDs\<close>: \<open>None\<close> is the nil set returned when the key has no readable entry.\<close>

definition GetUIDs :: "UIDTrackingContExpectations \<Rightarrow> string \<Rightarrow> string set option" where
  "GetUIDs u controllerKey =
     (case GetByKey (uidStore u) controllerKey of
        (Some uid, True, None) \<Rightarrow> Some (String uid)
      | _ \<Rightarrow> None)"

text \<open>The loop that inserts every element of \<open>deletedKeys\<close> into a new set.\<close>

fun Insert_all :: "string set \<Rightarrow> string list \<Rightarrow> string set" where
  "Insert_all expectedUIDs [] = expectedUIDs"
| "Insert_all expectedUIDs (k # ks) = Insert_all (insert k expectedUIDs) ks"

definition UID_ExpectDeletions ::
  "Time \<Rightarrow> UIDTrackingContExpectations \<Rightarrow> string \<Rightarrow> string list \<Rightarrow>
   error option \<times> UIDTrackingContExpectations" where
  "UID_ExpectDeletions now u rcKey deletedKeys =
     (let expectedUIDs = Insert_all {} deletedKeys
      in case Add_store UIDSetKeyFunc (uidStore u) \<lparr>String = expectedUIDs, key_uid = rcKey\<rparr> of
           (Some err, st) \<Rightarrow> (Some err, u\<lparr>uidStore := st\<rparr>)
         | (None, st) \<Rightarrow>
             (case ExpectDeletions now (ExpectationsInterface u) rcKey (of_nat (card expectedUIDs)) of
                (err, ce) \<Rightarrow> (err, u\<lparr>ExpectationsInterface := ce, uidStore := st\<rparr>)))"

text \<open>
  \<open>DeletionObserved\<close> of the wrapper: \<open>uids.Delete(deleteKey)\<close> changes the set that
  the store holds under \<open>rcKey\<close>.
\<close>

definition UID_DeletionObserved ::
  "UIDTrackingContExpectations \<Rightarrow> string \<Rightarrow> string \<Rightarrow> UIDTrackingContExpectations" where
  "UID_DeletionObserved u rcKey deleteKey =
     (case GetUIDs u rcKey of
        None \<Rightarrow> u
      | Some uids \<Rightarrow>
          if deleteKey \<in> uids
          then u\<lparr>ExpectationsInterface := DeletionObserved (ExpectationsInterface u) rcKey,
                 uidStore := (uidStore u)\<lparr>items :=
                   (items (uidStore u))(rcKey := map_option (\<lambda>e. e\<lparr>String := uids - {deleteKey}\<rparr>)
                                                   (items (uidStore u) rcKey))\<rparr>\<rparr>
          else u)"

definition UID_DeleteExpectations ::
  "UIDTrackingContExpectations \<Rightarrow> string \<Rightarrow> UIDTrackingContExpectations" where
  "UID_DeleteExpectations u rcKey =
     (let ce = DeleteExpectations (ExpectationsInterface u) rcKey
      in case GetByKey (uidStore u) rcKey of
           (Some uidExp, True, None) \<Rightarrow>
             u\<lparr>ExpectationsInterface := ce, uidStore := snd (Delete_store UIDSetKeyFunc (uidStore u) uidExp)\<rparr>
         | _ \<Rightarrow> u\<lparr>ExpectationsInterface := ce\<rparr>)"

section \<open>Machines, templates and owner references\<close>

text \<open>
  \<open>metav1.OwnerReference\<close>; the two \<open>*bool\<close> fields are \<open>None\<close> when nil.
\<close>

record OwnerReference =
  APIVersion :: string
  Kind :: string
  Name_ref :: string
  UID :: string
  Controller :: "bool option"
  BlockOwnerDeletion :: "bool option"

text \<open>
  \<open>metav1.ObjectMeta\<close>, with the fields this package reads or writes. A Go map is
  \<open>None\<close> when nil. \<open>MachineTemplateSpec\<close> embeds \<open>ObjectMeta\<close> and adds the spec;
  \<open>Machine\<close> has the same two parts and a status, of which the phase is used. The
  machine spec is a payload that is only copied: it is the type parameter.
\<close>

record ObjectMeta =
  Name :: string
  GenerateName :: string
  Labels :: "(string \<rightharpoonup> string) option"
  Annotations :: "(string \<rightharpoonup> string) option"
  Finalizers :: "string list"
  OwnerReferences :: "OwnerReference list"
  CreationTimestamp :: Time

record 'spec MachineTemplateSpec = ObjectMeta +
  Spec :: 'spec

text \<open>
  \<open>v1alpha1.MachinePhase\<close> is a string type; its seven constants are constructors,
  and \<open>OtherPhase\<close> holds any other string (the zero value is the empty string).
\<close>

datatype MachinePhase =
    MachinePending
  | MachineAvailable
  | MachineRunning
  | MachineTerminating
  | MachineUnknown
  | MachineFailed
  | MachineCrashLoopBackOff
  | OtherPhase string

record 'spec Machine = "'spec MachineTemplateSpec" +
  Phase :: MachinePhase

definition zeroTime :: Time where
  "zeroTime = \<lparr>instant = 0, zone = []\<rparr>"

text \<open>
  A \<open>runtime.Object\<close> given as the parent: \<open>meta.Accessor\<close> gives its name, or fails
  when the object has no object metadata.
\<close>

datatype RuntimeObject = WithObjectMeta string | WithoutObjectMeta

fun Accessor :: "RuntimeObject \<Rightarrow> error + string" where
  "Accessor (WithObjectMeta name) = Inr name"
| "Accessor WithoutObjectMeta = Inl (ErrorString ''object does not implement the Object interfaces'')"

definition validateControllerRef :: "OwnerReference option \<Rightarrow> error option" where
  "validateControllerRef controllerRef =
     (case controllerRef of
        None \<Rightarrow> Some (ErrorString ''controllerRef is nil'')
      | Some ref \<Rightarrow>
          if length (APIVersion ref) = 0 then Some (ErrorString ''controllerRef has empty APIVersion'')
          else if length (Kind ref) = 0 then Some (ErrorString ''controllerRef has empty Kind'')
          else if Controller ref = None \<or> Controller ref = Some False
            then Some (ErrorString ''controllerRef.Controller is not set to true'')
          else if BlockOwnerDeletion ref = None \<or> BlockOwnerDeletion ref = Some False
            then Some (ErrorString ''controllerRef.BlockOwnerDeletion is not set'')
          else None)"

text \<open>Ranging over a nil map visits nothing; the copy is a new, non-nil map.\<close>

definition copy_map :: "(string \<rightharpoonup> string) option \<Rightarrow> (string \<rightharpoonup> string) option" where
  "copy_map m = Some (case m of None \<Rightarrow> Map.empty | Some f \<Rightarrow> f)"

definition getMachinesLabelSet :: "'spec MachineTemplateSpec \<Rightarrow> (string \<rightharpoonup> string) option" where
  "getMachinesLabelSet template = copy_map (Labels template)"

definition getMachinesFinalizers :: "'spec MachineTemplateSpec \<Rightarrow> string list" where
  "getMachinesFinalizers template = Finalizers template"

definition getMachinesAnnotationSet ::
  "'spec MachineTemplateSpec \<Rightarrow> RuntimeObject \<Rightarrow> (string \<rightharpoonup> string) option" where
  "getMachinesAnnotationSet template object = copy_map (Annotations template)"

text \<open>
  \<open>validation.NameIsDNSSubdomain\<close> belongs to a library; it is the argument
  \<open>NameIsDNSSubdomain\<close>, which returns the list of complaints about a name.
\<close>

definition getMachinesPrefix :: "(string \<Rightarrow> bool \<Rightarrow> string list) \<Rightarrow> string \<Rightarrow> string" where
  "getMachinesPrefix NameIsDNSSubdomain controllerName =
     (let prefix = controllerName @ ''-''
      in if length (NameIsDNSSubdomain prefix True) \<noteq> 0 then controllerName else prefix)"

definition GetMachineFromTemplate ::
  "(string \<Rightarrow> bool \<Rightarrow> string list) \<Rightarrow> 'spec MachineTemplateSpec \<Rightarrow> RuntimeObject \<Rightarrow>
   OwnerReference option \<Rightarrow> error + 'spec Machine" where
  "GetMachineFromTemplate NameIsDNSSubdomain template parentObject controllerRef =
     (let desiredLabels = getMachinesLabelSet template;
          desiredFinalizers = getMachinesFinalizers template;
          desiredAnnotations = getMachinesAnnotationSet template parentObject
      in case Accessor parentObject of
           Inl err \<Rightarrow> Inl (ErrorString (''parentObject does not have ObjectMeta, '' @ Error_msg err))
         | Inr name \<Rightarrow>
             Inr \<lparr>Name = [],
                  GenerateName = getMachinesPrefix NameIsDNSSubdomain name,
                  Labels = desiredLabels,
                  Annotations = desiredAnnotations,
                  Finalizers = desiredFinalizers,
                  OwnerReferences = (case controllerRef of None \<Rightarrow> [] | Some ref \<Rightarrow> [ref]),
                  CreationTimestamp = zeroTime,
                  Spec = Spec template,
                  Phase = OtherPhase []\<rparr>)"

text \<open>
  The fake variant names the machine itself: the prefix, a dash and the first five
  characters of a new UUID, which is the argument \<open>uuid\<close>.
\<close>

definition GetFakeMachineFromTemplate ::
  "(string \<Rightarrow> bool \<Rightarrow> string list) \<Rightarrow> string \<Rightarrow> 'spec MachineTemplateSpec \<Rightarrow> RuntimeObject \<Rightarrow>
   OwnerReference option \<Rightarrow> error + 'spec Machine" where
  "GetFakeMachineFromTemplate NameIsDNSSubdomain uuid template parentObject controllerRef =
     (let desiredLabels = getMachinesLabelSet template;
          desiredFinalizers = getMachinesFinalizers template;
          desiredAnnotations = getMachinesAnnotationSet template parentObject
      in case Accessor parentObject of
           Inl err \<Rightarrow> Inl (ErrorString (''parentObject does not have ObjectMeta, '' @ Error_msg err))
         | Inr name \<Rightarrow>
             Inr \<lparr>Name = getMachinesPrefix NameIsDNSSubdomain name @ ''-'' @ take 5 uuid,
                  GenerateName = [],
                  Labels = desiredLabels,
                  Annotations = desiredAnnotations,
                  Finalizers = desiredFinalizers,
                  OwnerReferences = (case controllerRef of None \<Rightarrow> [] | Some ref \<Rightarrow> [ref]),
                  CreationTimestamp = zeroTime,
                  Spec = Spec template,
                  Phase = OtherPhase []\<rparr>)"

text \<open>\<open>labels.Set(ls).AsSelectorPreValidated().Empty()\<close>: the label set has no entry.\<close>

definition Selector_Empty :: "(string \<rightharpoonup> string) option \<Rightarrow> bool" where
  "Selector_Empty ls = (case ls of None \<Rightarrow> True | Some f \<Rightarrow> f = Map.empty)"

section \<open>Machine control\<close>

text \<open>
  The remote machine API answers a call with an error or a result; \<open>MachineClient\<close>
  holds its answers. The world keeps the remote calls made and the events handed to the
  recorder, in order.
\<close>

record 'spec MachineClient =
  Create_resp :: "string \<Rightarrow> 'spec Machine \<Rightarrow> error + 'spec Machine"
  Patch_resp :: "string \<Rightarrow> string \<Rightarrow> 8 word list \<Rightarrow> error + 'spec Machine"
  Delete_resp :: "string \<Rightarrow> string \<Rightarrow> error option"

datatype 'spec RemoteCall =
    CreateCall string "'spec Machine"
  | PatchCall string string "8 word list"
  | DeleteCall string string

datatype Event = Event RuntimeObject string string string

record 'spec World =
  calls :: "'spec RemoteCall list"
  events :: "Event list"

definition EventTypeNormal :: string where
  "EventTypeNormal = ''Normal''"

definition EventTypeWarning :: string where
  "EventTypeWarning = ''Warning''"

definition FailedCreateMachineReason :: string where
  "FailedCreateMachineReason = ''FailedCreate''"

definition SuccessfulCreateMachineReason :: string where
  "SuccessfulCreateMachineReason = ''SuccessfulCreate''"

definition FailedDeleteMachineReason :: string where
  "FailedDeleteMachineReason = ''FailedDelete''"

definition SuccessfulDeleteMachineReason :: string where
  "SuccessfulDeleteMachineReason = ''SuccessfulDelete''"

definition remote :: "'spec RemoteCall \<Rightarrow> 'spec World \<Rightarrow> 'spec World" where
  "remote c w = w\<lparr>calls := calls w @ [c]\<rparr>"

definition Eventf :: "RuntimeObject \<Rightarrow> string \<Rightarrow> string \<Rightarrow> string \<Rightarrow> 'spec World \<Rightarrow> 'spec World" where
  "Eventf object eventtype reason message w =
     w\<lparr>events := events w @ [Event object eventtype reason message]\<rparr>"

definition createMachines ::
  "(string \<Rightarrow> bool \<Rightarrow> string list) \<Rightarrow> 'spec MachineClient \<Rightarrow> 'spec World \<Rightarrow> string \<Rightarrow>
   'spec MachineTemplateSpec \<Rightarrow> RuntimeObject \<Rightarrow> OwnerReference option \<Rightarrow> error option \<times> 'spec World" where
  "createMachines NameIsDNSSubdomain r w namespace template object controllerRef =
     (case GetMachineFromTemplate NameIsDNSSubdomain template object controllerRef of
        Inl err \<Rightarrow> (Some err, w)
      | Inr machine \<Rightarrow>
          if Selector_Empty (Labels machine)
          then (Some (ErrorString ''unable to create machines, no labels''), w)
          else
            (case Create_resp r namespace machine of
               Inl err \<Rightarrow>
                 (Some err,
                  Eventf object EventTypeWarning FailedCreateMachineReason
                    (''Error creating: '' @ Error_msg err) (remote (CreateCall namespace machine) w))
             | Inr newMachine \<Rightarrow>
                 (case Accessor object of
                    Inl err \<Rightarrow> (None, remote (CreateCall namespace machine) w)
                  | Inr name \<Rightarrow>
                      (None,
                       Eventf object EventTypeNormal SuccessfulCreateMachineReason
                         (''Created Machine: '' @ Name newMachine)
                         (remote (CreateCall namespace machine) w)))))"

definition CreateMachines ::
  "(string \<Rightarrow> bool \<Rightarrow> string list) \<Rightarrow> 'spec MachineClient \<Rightarrow> 'spec World \<Rightarrow> string \<Rightarrow>
   'spec MachineTemplateSpec \<Rightarrow> RuntimeObject \<Rightarrow> error option \<times> 'spec World" where
  "CreateMachines NameIsDNSSubdomain r w namespace template object =
     createMachines NameIsDNSSubdomain r w namespace template object None"

definition CreateMachinesWithControllerRef ::
  "(string \<Rightarrow> bool \<Rightarrow> string list) \<Rightarrow> 'spec MachineClient \<Rightarrow> 'spec World \<Rightarrow> string \<Rightarrow>
   'spec MachineTemplateSpec \<Rightarrow> RuntimeObject \<Rightarrow> OwnerReference option \<Rightarrow> error option \<times> 'spec World" where
  "CreateMachinesWithControllerRef NameIsDNSSubdomain r w namespace template controllerObject controllerRef =
     (case validateControllerRef controllerRef of
        Some err \<Rightarrow> (Some err, w)
      | None \<Rightarrow> createMachines NameIsDNSSubdomain r w namespace template controllerObject controllerRef)"

definition PatchMachine ::
  "'spec MachineClient \<Rightarrow> 'spec World \<Rightarrow> string \<Rightarrow> string \<Rightarrow> 8 word list \<Rightarrow> error option \<times> 'spec World" where
  "PatchMachine r w namespace name data =
     (case Patch_resp r namespace name data of
        Inl err \<Rightarrow> (Some err, remote (PatchCall namespace name data) w)
      | Inr m \<Rightarrow> (None, remote (PatchCall namespace name data) w))"

definition DeleteMachine ::
  "'spec MachineClient \<Rightarrow> 'spec World \<Rightarrow> string \<Rightarrow> string \<Rightarrow> RuntimeObject \<Rightarrow> error option \<times> 'spec World" where
  "DeleteMachine r w namespace machineID object =
     (case Accessor object of
        Inl err \<Rightarrow> (Some (ErrorString (''object does not have ObjectMeta, '' @ Error_msg err)), w)
      | Inr name \<Rightarrow>
          (case Delete_resp r namespace machineID of
             Some err \<Rightarrow>
               (Some (ErrorString (''unable to delete machines: '' @ Error_msg err)),
                Eventf object EventTypeWarning FailedDeleteMachineReason
                  (''Error deleting: '' @ Error_msg err) (remote (DeleteCall namespace machineID) w))
           | None \<Rightarrow>
               (None,
                Eventf object EventTypeNormal SuccessfulDeleteMachineReason
                  (''Deleted machine: '' @ machineID) (remote (DeleteCall namespace machineID) w))))"

text \<open>\<open>FakeMachineControl\<close>: the same operations on the fake client.\<close>

definition Fake_createMachines ::
  "(string \<Rightarrow> bool \<Rightarrow> string list) \<Rightarrow> string \<Rightarrow> 'spec MachineClient \<Rightarrow> 'spec World \<Rightarrow> string \<Rightarrow>
   'spec MachineTemplateSpec \<Rightarrow> RuntimeObject \<Rightarrow> OwnerReference option \<Rightarrow> error option \<times> 'spec World" where
  "Fake_createMachines NameIsDNSSubdomain uuid r w namespace template object controllerRef =
     (case GetFakeMachineFromTemplate NameIsDNSSubdomain uuid template object controllerRef of
        Inl err \<Rightarrow> (Some err, w)
      | Inr machine \<Rightarrow>
          if Selector_Empty (Labels machine)
          then (Some (ErrorString ''unable to create machines, no labels''), w)
          else
            (case Create_resp r namespace machine of
               Inl err \<Rightarrow>
                 (Some err,
                  Eventf object EventTypeWarning FailedCreateMachineReason
                    (''Error creating: '' @ Error_msg err) (remote (CreateCall namespace machine) w))
             | Inr newMachine \<Rightarrow> (None, remote (CreateCall namespace machine) w)))"

definition Fake_CreateMachines ::
  "(string \<Rightarrow> bool \<Rightarrow> string list) \<Rightarrow> string \<Rightarrow> 'spec MachineClient \<Rightarrow> 'spec World \<Rightarrow> string \<Rightarrow>
   'spec MachineTemplateSpec \<Rightarrow> RuntimeObject \<Rightarrow> error option \<times> 'spec World" where
  "Fake_CreateMachines NameIsDNSSubdomain uuid r w namespace template object =
     Fake_createMachines NameIsDNSSubdomain uuid r w namespace template object None"

definition Fake_CreateMachinesWithControllerRef ::
  "(string \<Rightarrow> bool \<Rightarrow> string list) \<Rightarrow> string \<Rightarrow> 'spec MachineClient \<Rightarrow> 'spec World \<Rightarrow> string \<Rightarrow>
   'spec MachineTemplateSpec \<Rightarrow> RuntimeObject \<Rightarrow> OwnerReference option \<Rightarrow> error option \<times> 'spec World" where
  "Fake_CreateMachinesWithControllerRef NameIsDNSSubdomain uuid r w namespace template controllerObject controllerRef =
     (case validateControllerRef controllerRef of
        Some err \<Rightarrow> (Some err, w)
      | None \<Rightarrow>
          Fake_createMachines NameIsDNSSubdomain uuid r w namespace template controllerObject controllerRef)"

definition Fake_PatchMachine ::
  "'spec MachineClient \<Rightarrow> 'spec World \<Rightarrow> string \<Rightarrow> string \<Rightarrow> 8 word list \<Rightarrow> error option \<times> 'spec World" where
  "Fake_PatchMachine r w namespace name data =
     (case Patch_resp r namespace name data of
        Inl err \<Rightarrow> (Some err, remote (PatchCall namespace name data) w)
      | Inr m \<Rightarrow> (None, remote (PatchCall namespace name data) w))"

definition Fake_DeleteMachine ::
  "'spec MachineClient \<Rightarrow> 'spec World \<Rightarrow> string \<Rightarrow> string \<Rightarrow> RuntimeObject \<Rightarrow> error option \<times> 'spec World" where
  "Fake_DeleteMachine r w namespace machineID object =
     (case Accessor object of
        Inl err \<Rightarrow> (Some (ErrorString (''object does not have ObjectMeta, '' @ Error_msg err)), w)
      | Inr name \<Rightarrow>
          (case Delete_resp r namespace machineID of
             Some err \<Rightarrow>
               (Some (ErrorString (''unable to delete machines: '' @ Error_msg err)),
                Eventf object EventTypeWarning FailedDeleteMachineReason
                  (''Error deleting: '' @ Error_msg err) (remote (DeleteCall namespace machineID) w))
           | None \<Rightarrow> (None, remote (DeleteCall namespace machineID) w)))"

section \<open>ActiveMachines: the deletion-priority comparator\<close>

text \<open>
  \<open>strconv.Atoi\<close> with a 64-bit \<open>int\<close>: an optional sign, then one or more decimal
  digits and nothing else; a value outside the int64 range is an error. \<open>None\<close> is
  the non-nil error.
\<close>

definition isDigit :: "char \<Rightarrow> bool" where
  "isDigit ch = (48 \<le> (of_char ch :: nat) \<and> (of_char ch :: nat) \<le> 57)"

fun digits_value :: "int \<Rightarrow> string \<Rightarrow> int" where
  "digits_value n [] = n"
| "digits_value n (ch # s) = digits_value (n * 10 + (int (of_char ch) - 48)) s"

definition Atoi :: "string \<Rightarrow> int option" where
  "Atoi s0 =
     (case s0 of
        [] \<Rightarrow> None
      | c # cs \<Rightarrow>
          (let s = (if c = CHR ''-'' \<or> c = CHR ''+'' then cs else s0)
           in if s = [] \<or> \<not> list_all isDigit s then None
              else
                (let n = digits_value 0 s;
                     v = (if c = CHR ''-'' then - n else n)
                 in if v < - (2 ^ 63) \<or> 2 ^ 63 - 1 < v then None else Some v)))"

text \<open>Indexing a Go map: the value, or the empty string when the key is missing or the map is nil.\<close>

definition index_map :: "(string \<rightharpoonup> string) option \<Rightarrow> string \<Rightarrow> string" where
  "index_map m k = (case m of None \<Rightarrow> [] | Some f \<Rightarrow> (case f k of None \<Rightarrow> [] | Some v \<Rightarrow> v))"

text \<open>
  The map \<open>m\<close> of \<open>Less\<close> from phase to rank; indexing it with a phase that is not
  a key gives the zero value.
\<close>

fun phaseRank :: "MachinePhase \<Rightarrow> int" where
  "phaseRank MachineTerminating = 0"
| "phaseRank MachineFailed = 1"
| "phaseRank MachineCrashLoopBackOff = 2"
| "phaseRank MachineUnknown = 3"
| "phaseRank MachinePending = 4"
| "phaseRank MachineAvailable = 5"
| "phaseRank MachineRunning = 6"
| "phaseRank (OtherPhase p) = 0"

text \<open>
  The body of \<open>Less\<close> on the two machines \<open>s[i]\<close> and \<open>s[j]\<close>. The annotation key
  \<open>machineutils.MachinePriority\<close> is a constant of another package: it is the
  argument \<open>MachinePriority\<close>.
\<close>

definition Less_body :: "string \<Rightarrow> 'spec Machine \<Rightarrow> 'spec Machine \<Rightarrow> bool" where
  "Less_body MachinePriority si sj =
     (let machineIPriority =
            (if Annotations si \<noteq> None \<and> index_map (Annotations si) MachinePriority \<noteq> []
             then (case Atoi (index_map (Annotations si) MachinePriority) of
                     Some num \<Rightarrow> num
                   | None \<Rightarrow> 3)
             else 3);
          machineJPriority =
            (if Annotations sj \<noteq> None \<and> index_map (Annotations sj) MachinePriority \<noteq> []
             then (case Atoi (index_map (Annotations sj) MachinePriority) of
                     Some num \<Rightarrow> num
                   | None \<Rightarrow> 3)
             else 3);
          m = phaseRank
      in if machineIPriority \<noteq> machineJPriority then machineIPriority < machineJPriority
         else if m (Phase si) \<noteq> m (Phase sj) then m (Phase si) < m (Phase sj)
         else if CreationTimestamp si \<noteq> CreationTimestamp sj
           then Before (CreationTimestamp si) (CreationTimestamp sj)
         else False)"

text \<open>\<open>Less(i, j)\<close> on the slice; an index out of range panics, which is \<open>None\<close>.\<close>

definition Less :: "string \<Rightarrow> 'spec Machine list \<Rightarrow> nat \<Rightarrow> nat \<Rightarrow> bool option" where
  "Less MachinePriority s i j =
     (if i < length s \<and> j < length s then Some (Less_body MachinePriority (s ! i) (s ! j)) else None)"

text \<open>
  The order as the specification words it: the priority read from the annotation, 3 when
  the annotation is absent or does not parse; then the rank of the phase; then the
  creation time.
\<close>

definition spec_priority :: "string \<Rightarrow> 'spec Machine \<Rightarrow> int" where
  "spec_priority MachinePriority x =
     (case Annotations x of
        None \<Rightarrow> 3
      | Some f \<Rightarrow>
          (case f MachinePriority of
             None \<Rightarrow> 3
           | Some v \<Rightarrow> (case Atoi v of None \<Rightarrow> 3 | Some n \<Rightarrow> n)))"

definition spec_deleted_before :: "string \<Rightarrow> 'spec Machine \<Rightarrow> 'spec Machine \<Rightarrow> bool" where
  "spec_deleted_before MachinePriority a b =
     (spec_priority MachinePriority a < spec_priority MachinePriority b \<or>
      (spec_priority MachinePriority a = spec_priority MachinePriority b \<and>
       (phaseRank (Phase a) < phaseRank (Phase b) \<or>
        (phaseRank (Phase a) = phaseRank (Phase b) \<and>
         instant (CreationTimestamp a) < instant (CreationTimestamp b)))))"

section \<open>ComputeHash\<close>

text \<open>
  \<open>fnv.New32a\<close>: the state of the hasher is a uint32; \<open>Write\<close> takes each byte
  into the state by an exclusive or and a multiplication by the FNV prime, and never
  fails; \<open>Sum32\<close> returns the state.
\<close>

definition offset32 :: "32 word" where
  "offset32 = 2166136261"

definition prime32 :: "32 word" where
  "prime32 = 16777619"

definition New32a :: "32 word" where
  "New32a = offset32"

fun Write_fnv :: "32 word \<Rightarrow> 8 word list \<Rightarrow> 32 word" where
  "Write_fnv hash [] = hash"
| "Write_fnv hash (c # data) = Write_fnv ((hash XOR ucast c) * prime32) data"

definition Sum32 :: "32 word \<Rightarrow> 32 word" where
  "Sum32 hash = hash"

text \<open>
  \<open>binary.LittleEndian.PutUint32(b, v)\<close> on a buffer of at least four bytes: the
  first four bytes become the bytes of \<open>v\<close>, lowest first; the rest stay.
\<close>

definition PutUint32 :: "8 word list \<Rightarrow> 32 word \<Rightarrow> 8 word list" where
  "PutUint32 b v =
     [ucast v, ucast (drop_bit 8 v), ucast (drop_bit 16 v), ucast (drop_bit 24 v)] @ drop 4 b"

text \<open>
  \<open>ComputeHash\<close>. \<open>hashutil.DeepHashObject\<close> is defined in another package: it
  resets the hasher and writes a printed form of the template into it; the argument
  \<open>DeepHashObject\<close> gives the bytes written for a template (a model of it follows
  the definition). The collision count is an int32 pointer: \<open>None\<close> when nil, else the
  32 bits, which \<open>uint32(...)\<close> keeps.
\<close>

definition ComputeHash :: "('template \<Rightarrow> 8 word list) \<Rightarrow> 'template \<Rightarrow> 32 word option \<Rightarrow> 32 word" where
  "ComputeHash DeepHashObject template collisionCount =
     (let machineTemplateSpecHasher = Write_fnv New32a (DeepHashObject template)
      in case collisionCount of
           None \<Rightarrow> Sum32 machineTemplateSpecHasher
         | Some count \<Rightarrow>
             (let collisionCountBytes = PutUint32 (replicate 8 0) count
              in Sum32 (Write_fnv machineTemplateSpecHasher collisionCountBytes)))"

text \<open>
  A template in memory: the template together with, for each of its two maps, the order
  in which ranging over the map visits its keys. That order depends on how the map was
  built and is not part of the structure of the template. Ranging over a map visits
  every key of the map, each once.
\<close>

record 'spec TemplateInMemory =
  Template :: "'spec MachineTemplateSpec"
  Labels_range :: "string list"
  Annotations_range :: "string list"

definition map_keys :: "(string \<rightharpoonup> string) option \<Rightarrow> string set" where
  "map_keys m = (case m of None \<Rightarrow> {} | Some f \<Rightarrow> dom f)"

definition ranges_over :: "string list \<Rightarrow> (string \<rightharpoonup> string) option \<Rightarrow> bool" where
  "ranges_over keys m = (distinct keys \<and> set keys = map_keys m)"

definition in_memory :: "'spec TemplateInMemory \<Rightarrow> bool" where
  "in_memory x =
     (ranges_over (Labels_range x) (Labels (Template x)) \<and>
      ranges_over (Annotations_range x) (Annotations (Template x)))"

text \<open>
  Modelled from the spec: the canonical form that \<open>hashutil.DeepHashObject\<close>, which is
  not among the source files, gives an unordered collection before hashing it. The
  specification says the hash is made with a canonicalizing hash function and not from
  the native iteration of an unordered collection: the keys that ranging over the map
  visits are sorted, and the entries are listed in ascending order of their keys.
\<close>

definition sorted_entries :: "(string \<rightharpoonup> string) option \<Rightarrow> string list \<Rightarrow> (string \<times> string) list" where
  "sorted_entries m keys = map (\<lambda>k. (k, index_map m k)) (sort keys)"

text \<open>
  Modelled from the spec: \<open>hashutil.DeepHashObject\<close>, which is not among the source
  files. The specification describes it as a deterministic, order-independent structural
  hash of the full template (labels, annotations, spec). It hands the printer the
  template and the canonical entries of the labels and of the annotations; the bytes the
  printer makes of them are what is written into the hasher. How the printer renders
  them is not specified: it is the argument \<open>printer\<close>.
\<close>

definition DeepHashObject_spec ::
  "('spec MachineTemplateSpec \<Rightarrow> (string \<times> string) list \<Rightarrow> (string \<times> string) list \<Rightarrow> 8 word list) \<Rightarrow>
   'spec TemplateInMemory \<Rightarrow> 8 word list" where
  "DeepHashObject_spec printer objectToWrite =
     printer (Template objectToWrite)
       (sorted_entries (Labels (Template objectToWrite)) (Labels_range objectToWrite))
       (sorted_entries (Annotations (Template objectToWrite)) (Annotations_range objectToWrite))"

section \<open>Node annotations\<close>

text \<open>
  A node is its object metadata. The remote node API is \<open>NodeClient\<close>: the answer to
  a call may depend on how many remote calls came before it (its first argument), as
  other clients change the node meanwhile. The world is the list of remote calls made.
  A \<open>Get\<close> carries the resource version asked for: \<open>0\<close> for a read served from the
  cache, empty for a consistent read.
\<close>

type_synonym Node = ObjectMeta

datatype NodeCall = GetNode string string | UpdateNode Node

record NodeClient =
  Get_node :: "nat \<Rightarrow> string \<Rightarrow> string \<Rightarrow> error + Node"
  Update_node :: "nat \<Rightarrow> Node \<Rightarrow> error option"

fun IsNotFound :: "error \<Rightarrow> bool" where
  "IsNotFound (StatusError reason msg) = (reason = ''NotFound'')"
| "IsNotFound (ErrorString msg) = False"

fun IsConflict :: "error \<Rightarrow> bool" where
  "IsConflict (StatusError reason msg) = (reason = ''Conflict'')"
| "IsConflict (ErrorString msg) = False"

text \<open>The verb \<open>%q\<close> on a name that needs no escaping: the name in double quotes.\<close>

definition Quote :: "string \<Rightarrow> string" where
  "Quote s = CHR 0x22 # s @ [CHR 0x22]"

definition UpdateNodeAnnotations ::
  "NodeClient \<Rightarrow> NodeCall list \<Rightarrow> string \<Rightarrow> Node \<Rightarrow> Node \<Rightarrow> error option \<times> NodeCall list" where
  "UpdateNodeAnnotations c w nodeName oldNode newNode =
     (let newNodeClone = oldNode\<lparr>Annotations := Annotations newNode\<rparr>
      in case Update_node c (length w) newNodeClone of
           Some err \<Rightarrow>
             (Some (ErrorString (''failed to create or update annotations for node '' @ Quote nodeName @
                '': '' @ Error_msg err)),
              w @ [UpdateNode newNodeClone])
         | None \<Rightarrow> (None, w @ [UpdateNode newNodeClone]))"

text \<open>
  \<open>clientretry.RetryOnConflict\<close> with a backoff of \<open>steps\<close> steps: the function runs
  until it succeeds, fails with an error that is not a conflict, or has run \<open>steps\<close>
  times, and then the last conflict is returned. The state of the function (here the
  flag \<open>firstTry\<close> and the world) is passed along; the waiting is not modelled.
\<close>

fun RetryOnConflict ::
  "nat \<Rightarrow> ('s \<Rightarrow> error option \<times> 's) \<Rightarrow> error option \<Rightarrow> 's \<Rightarrow> error option \<times> 's" where
  "RetryOnConflict 0 fn lastErr s = (lastErr, s)"
| "RetryOnConflict (Suc steps) fn lastErr s =
     (case fn s of
        (None, s') \<Rightarrow> (None, s')
      | (Some err, s') \<Rightarrow>
          if IsConflict err then RetryOnConflict steps fn (Some err) s' else (Some err, s'))"

definition UpdateAnnotationBackoff_Steps :: nat where
  "UpdateAnnotationBackoff_Steps = 5"

text \<open>
  One run of the function that \<open>AddOrUpdateAnnotationOnNode\<close> and
  \<open>RemoveAnnotationsOffNode\<close> retry. They differ in the helper of the package
  \<open>annotationsutils\<close> that computes the new node (\<open>AddOrUpdateAnnotation\<close>,
  \<open>RemoveAnnotation\<close>), which is the argument \<open>change\<close>: it returns the new node,
  whether anything changed, and an error.
\<close>

definition annotation_attempt ::
  "(Node \<Rightarrow> (string \<rightharpoonup> string) \<Rightarrow> Node \<times> bool \<times> error option) \<Rightarrow> NodeClient \<Rightarrow> string \<Rightarrow>
   (string \<rightharpoonup> string) \<Rightarrow> bool \<times> NodeCall list \<Rightarrow> error option \<times> bool \<times> NodeCall list" where
  "annotation_attempt change c nodeName annotations s =
     (case s of
        (firstTry, w) \<Rightarrow>
          (let resourceVersion = (if firstTry then ''0'' else []);
               w1 = w @ [GetNode nodeName resourceVersion]
           in case Get_node c (length w) nodeName resourceVersion of
                Inl err \<Rightarrow>
                  if IsNotFound err then (None, False, w1) else (Some err, False, w1)
              | Inr oldNode \<Rightarrow>
                  (case change oldNode annotations of
                     (newNode, updated, Some err) \<Rightarrow> (Some err, False, w1)
                   | (newNode, updated, None) \<Rightarrow>
                       if \<not> updated then (None, False, w1)
                       else
                         (case UpdateNodeAnnotations c w1 nodeName oldNode newNode of
                            (err, w2) \<Rightarrow> (err, False, w2)))))"

definition AddOrUpdateAnnotationOnNode ::
  "(Node \<Rightarrow> (string \<rightharpoonup> string) \<Rightarrow> Node \<times> bool \<times> error option) \<Rightarrow> NodeClient \<Rightarrow> NodeCall list \<Rightarrow>
   string \<Rightarrow> (string \<rightharpoonup> string) option \<Rightarrow> error option \<times> NodeCall list" where
  "AddOrUpdateAnnotationOnNode AddOrUpdateAnnotation c w nodeName annotations =
     (case annotations of
        None \<Rightarrow> (None, w)
      | Some a \<Rightarrow>
          (case RetryOnConflict UpdateAnnotationBackoff_Steps
                  (annotation_attempt AddOrUpdateAnnotation c nodeName a) None (True, w) of
             (err, firstTry, w') \<Rightarrow> (err, w')))"

definition RemoveAnnotationsOffNode ::
  "(Node \<Rightarrow> (string \<rightharpoonup> string) \<Rightarrow> Node \<times> bool \<times> error option) \<Rightarrow> NodeClient \<Rightarrow> NodeCall list \<Rightarrow>
   string \<Rightarrow> (string \<rightharpoonup> string) option \<Rightarrow> error option \<times> NodeCall list" where
  "RemoveAnnotationsOffNode RemoveAnnotation c w nodeName annotations =
     (case annotations of
        None \<Rightarrow> (None, w)
      | Some a \<Rightarrow>
          if nodeName = [] then (None, w)
          else
            (case RetryOnConflict UpdateAnnotationBackoff_Steps
                    (annotation_attempt RemoveAnnotation c nodeName a) None (True, w) of
               (err, firstTry, w') \<Rightarrow> (err, w')))"

section \<open>Example states\<close>

definition ex_time :: "int \<Rightarrow> Time" where
  "ex_time n = \<lparr>instant = n, zone = ''UTC''\<rparr>"

definition ex_entry :: "64 word \<Rightarrow> 64 word \<Rightarrow> ControlleeExpectations" where
  "ex_entry a d = \<lparr>add = a, del = d, key = ''rc'', timestamp = ex_time 0\<rparr>"

definition ex_store :: "64 word \<Rightarrow> 64 word \<Rightarrow> ContExpectations" where
  "ex_store a d = \<lparr>items = [''rc'' \<mapsto> ex_entry a d], readFault = Map.empty, writeFault = Map.empty\<rparr>"

definition ex_faulty_store :: ContExpectations where
  "ex_faulty_store =
     \<lparr>items = [''rc'' \<mapsto> ex_entry 2 0],
      readFault = [''rc'' \<mapsto> (None, False, ErrorString ''store unavailable'')],
      writeFault = Map.empty\<rparr>"

definition ex_tracker :: UIDTrackingContExpectations where
  "ex_tracker =
     \<lparr>ExpectationsInterface = ex_store 0 2,
      uidStore = \<lparr>items = [''rc'' \<mapsto> \<lparr>String = {''a'', ''b''}, key_uid = ''rc''\<rparr>],
                  readFault = Map.empty, writeFault = Map.empty\<rparr>\<rparr>"

definition ex_owner :: OwnerReference where
  "ex_owner = \<lparr>APIVersion = ''machine.sapcloud.io/v1alpha1'', Kind = ''MachineSet'', Name_ref = ''ms'',
     UID = ''u-1'', Controller = Some True, BlockOwnerDeletion = Some True\<rparr>"

definition ex_template :: "(string \<rightharpoonup> string) option \<Rightarrow> unit MachineTemplateSpec" where
  "ex_template ls = \<lparr>Name = [], GenerateName = [], Labels = ls, Annotations = None, Finalizers = [],
     OwnerReferences = [], CreationTimestamp = zeroTime, Spec = ()\<rparr>"

definition ex_NameIsDNSSubdomain :: "string \<Rightarrow> bool \<Rightarrow> string list" where
  "ex_NameIsDNSSubdomain name prefix = []"

definition ex_remote_error :: error where
  "ex_remote_error = StatusError ''NotFound'' ''machine m-1 not found''"

definition ex_failing_client :: "unit MachineClient" where
  "ex_failing_client =
     \<lparr>Create_resp = (\<lambda>namespace machine. Inl ex_remote_error),
      Patch_resp = (\<lambda>namespace name data. Inl ex_remote_error),
      Delete_resp = (\<lambda>namespace name. Some ex_remote_error)\<rparr>"

definition ex_world :: "unit World" where
  "ex_world = \<lparr>calls = [], events = []\<rparr>"

definition ex_labels :: "(string \<rightharpoonup> string) option" where
  "ex_labels = Some [''app'' \<mapsto> ''web'']"

definition ex_machine :: "unit Machine" where
  "ex_machine = \<lparr>Name = [], GenerateName = ''ms-'', Labels = ex_labels, Annotations = Some Map.empty,
     Finalizers = [], OwnerReferences = [], CreationTimestamp = zeroTime, Spec = (),
     Phase = OtherPhase []\<rparr>"

definition ex_fake_machine :: "unit Machine" where
  "ex_fake_machine = ex_machine\<lparr>Name := ''ms--3f2a9'', GenerateName := []\<rparr>"

definition ex_prio_key :: string where
  "ex_prio_key = ''machinepriority.machine.sapcloud.io''"

definition ex_active :: "string option \<Rightarrow> MachinePhase \<Rightarrow> int \<Rightarrow> unit Machine" where
  "ex_active prio phase created =
     \<lparr>Name = ''m'', GenerateName = [],
      Labels = None,
      Annotations = (case prio of None \<Rightarrow> None | Some p \<Rightarrow> Some [ex_prio_key \<mapsto> p]),
      Finalizers = [], OwnerReferences = [], CreationTimestamp = ex_time created, Spec = (),
      Phase = phase\<rparr>"

definition ex_machines :: "unit Machine list" where
  "ex_machines =
     [ex_active (Some ''5'') MachineRunning 10,
      ex_active (Some ''3'') MachineRunning 10,
      ex_active (Some ''3'') MachineTerminating 10]"

definition ex_ties :: "unit Machine list" where
  "ex_ties = [ex_active None MachineRunning 10, ex_active (Some ''x3'') MachineRunning 10]"

text \<open>A printer that writes the characters of a template given as a string.\<close>

definition ex_DeepHashObject :: "string \<Rightarrow> 8 word list" where
  "ex_DeepHashObject template = map of_char template"

text \<open>
  A node API that holds one node, \<open>node-1\<close>, and accepts every update; and helpers
  that add or remove annotations and report whether the node changed.
\<close>

definition ex_node :: Node where
  "ex_node = \<lparr>Name = ''node-1'', GenerateName = [], Labels = None,
     Annotations = Some [''zone'' \<mapsto> ''a''], Finalizers = [], OwnerReferences = [],
     CreationTimestamp = ex_time 0\<rparr>"

definition ex_node_client :: NodeClient where
  "ex_node_client =
     \<lparr>Get_node = (\<lambda>n name resourceVersion.
        if name = ''node-1'' then Inr ex_node else Inl (StatusError ''NotFound'' ''node not found'')),
      Update_node = (\<lambda>n node. None)\<rparr>"

definition ex_AddOrUpdateAnnotation :: "Node \<Rightarrow> (string \<rightharpoonup> string) \<Rightarrow> Node \<times> bool \<times> error option" where
  "ex_AddOrUpdateAnnotation node a =
     (let old = (case Annotations node of None \<Rightarrow> Map.empty | Some f \<Rightarrow> f)
      in (node\<lparr>Annotations := Some (old ++ a)\<rparr>, \<not> map_le a old, None))"

definition ex_RemoveAnnotation :: "Node \<Rightarrow> (string \<rightharpoonup> string) \<Rightarrow> Node \<times> bool \<times> error option" where
  "ex_RemoveAnnotation node a =
     (let old = (case Annotations node of None \<Rightarrow> Map.empty | Some f \<Rightarrow> f)
      in (node\<lparr>Annotations := Some (old |` (- dom a))\<rparr>, dom a \<inter> dom old \<noteq> {}, None))"

text \<open>
  One template with two labels, held in memory by two maps that range over the keys in
  opposite orders; and a printer that writes each entry as key, \<open>=\<close>, value, \<open>;\<close>,
  followed by the finalizers.
\<close>

definition ex_two_labels :: "(string \<rightharpoonup> string) option" where
  "ex_two_labels = Some [''app'' \<mapsto> ''web'', ''tier'' \<mapsto> ''front'']"

definition ex_built_forward :: "unit TemplateInMemory" where
  "ex_built_forward =
     \<lparr>Template = ex_template ex_two_labels, Labels_range = [''app'', ''tier''], Annotations_range = []\<rparr>"

definition ex_built_backward :: "unit TemplateInMemory" where
  "ex_built_backward =
     \<lparr>Template = ex_template ex_two_labels, Labels_range = [''tier'', ''app''], Annotations_range = []\<rparr>"

definition ex_printer ::
  "unit MachineTemplateSpec \<Rightarrow> (string \<times> string) list \<Rightarrow> (string \<times> string) list \<Rightarrow> 8 word list" where
  "ex_printer t ls as =
     map of_char
       (concat (map (\<lambda>(k, v). k @ ''='' @ v @ '';'') ls) @
        concat (map (\<lambda>(k, v). k @ ''='' @ v @ '';'') as) @
        concat (Finalizers t))"

section \<open>The expectations store\<close>

lemma GetByKey_err_iff: "snd (snd (GetByKey r k)) \<noteq> None \<longleftrightarrow> readFault r k \<noteq> None"
  by (auto simp add: GetByKey_def split: option.splits prod.splits)

lemma GetByKey_ok_iff:
  "GetByKey r k = (Some x, True, None) \<longleftrightarrow> readFault r k = None \<and> items r k = Some x"
  by (auto simp add: GetByKey_def split: option.splits prod.splits)

lemma GetExpectations_err_None: "snd (snd (GetExpectations r k)) = None"
  by (simp add: GetExpectations_def split: prod.splits)

lemma GetExpectations_fault:
  "readFault r k = Some f \<Longrightarrow> GetExpectations r k = (None, False, None)"
  by (simp add: GetExpectations_def GetByKey_def split: prod.splits)

lemma GetExpectations_absent:
  "readFault r k = None \<Longrightarrow> items r k = None \<Longrightarrow> GetExpectations r k = (None, False, None)"
  by (simp add: GetExpectations_def GetByKey_def split: prod.splits)

lemma GetExpectations_present:
  "readFault r k = None \<Longrightarrow> items r k = Some e \<Longrightarrow> GetExpectations r k = (Some e, True, None)"
  by (simp add: GetExpectations_def GetByKey_def split: prod.splits)

lemma GetExpectations_Some_iff:
  "GetExpectations r k = (Some e, True, None) \<longleftrightarrow> readFault r k = None \<and> items r k = Some e"
  by (auto simp add: GetExpectations_def GetByKey_def split: option.splits prod.splits)

lemma Since_gt_timeout:
  "Since now t > ExpectationsTimeout \<longleftrightarrow> instant now - instant t > 300000000000"
  by (simp add: Since_def Sub_def Let_def ExpectationsTimeout_def maxDuration_def minDuration_def)

lemma SatisfiedExpectations_fault:
  "readFault r k = Some f \<Longrightarrow> SatisfiedExpectations now r k"
  by (simp add: SatisfiedExpectations_def SatisfiedExpectations_log_def GetExpectations_fault)

lemma SatisfiedExpectations_absent:
  "readFault r k = None \<Longrightarrow> items r k = None \<Longrightarrow> SatisfiedExpectations now r k"
  by (simp add: SatisfiedExpectations_def SatisfiedExpectations_log_def GetExpectations_absent)

lemma SatisfiedExpectations_present:
  "readFault r k = None \<Longrightarrow> items r k = Some e \<Longrightarrow>
   SatisfiedExpectations now r k \<longleftrightarrow>
     (sint (add e) \<le> 0 \<and> sint (del e) \<le> 0) \<or> instant now - instant (timestamp e) > 300000000000"
  by (simp add: SatisfiedExpectations_def SatisfiedExpectations_log_def GetExpectations_present
      Fulfilled_def isExpired_def Since_gt_timeout)

text \<open>
  C1. \<open>SatisfiedExpectations\<close> is true when the key has no entry, when the entry is
  fulfilled (both counters at most 0), when more than five minutes (300000000000 ns) have
  passed since the entry's timestamp, and when the read of the store returns an error;
  it is false exactly when the store returns an entry that is neither fulfilled nor
  expired.
\<close>

theorem SatisfiedExpectations_cases:
  "(readFault r k = None \<and> items r k = None \<longrightarrow> SatisfiedExpectations now r k) \<and>
   (readFault r k = None \<and> items r k = Some e \<and> sint (add e) \<le> 0 \<and> sint (del e) \<le> 0 \<longrightarrow>
      SatisfiedExpectations now r k) \<and>
   (readFault r k = None \<and> items r k = Some e \<and>
      instant now - instant (timestamp e) > 300000000000 \<longrightarrow>
      SatisfiedExpectations now r k) \<and>
   (snd (snd (GetByKey r k)) \<noteq> None \<longrightarrow> SatisfiedExpectations now r k) \<and>
   (\<not> SatisfiedExpectations now r k \<longleftrightarrow>
      (\<exists>x. GetByKey r k = (Some x, True, None) \<and>
           \<not> (sint (add x) \<le> 0 \<and> sint (del x) \<le> 0) \<and>
           \<not> instant now - instant (timestamp x) > 300000000000))"
proof (intro conjI impI)
  show "SatisfiedExpectations now r k" if "readFault r k = None \<and> items r k = None"
    using that by (simp add: SatisfiedExpectations_absent)
  show "SatisfiedExpectations now r k"
    if "readFault r k = None \<and> items r k = Some e \<and> sint (add e) \<le> 0 \<and> sint (del e) \<le> 0"
    using that by (simp add: SatisfiedExpectations_present)
  show "SatisfiedExpectations now r k"
    if "readFault r k = None \<and> items r k = Some e \<and>
        instant now - instant (timestamp e) > 300000000000"
    using that by (simp add: SatisfiedExpectations_present)
  show "SatisfiedExpectations now r k" if "snd (snd (GetByKey r k)) \<noteq> None"
  proof -
    from that have "readFault r k \<noteq> None" using GetByKey_err_iff [of r k] by blast
    then obtain f where "readFault r k = Some f" by blast
    then show ?thesis by (rule SatisfiedExpectations_fault)
  qed
  show "\<not> SatisfiedExpectations now r k \<longleftrightarrow>
      (\<exists>x. GetByKey r k = (Some x, True, None) \<and>
           \<not> (sint (add x) \<le> 0 \<and> sint (del x) \<le> 0) \<and>
           \<not> instant now - instant (timestamp x) > 300000000000)"
  proof (cases "readFault r k")
    case (Some f)
    then show ?thesis by (simp add: SatisfiedExpectations_fault GetByKey_ok_iff)
  next
    case None
    show ?thesis
    proof (cases "items r k")
      case N: None
      with None show ?thesis by (simp add: SatisfiedExpectations_absent GetByKey_ok_iff)
    next
      case (Some y)
      with None show ?thesis by (simp add: SatisfiedExpectations_present GetByKey_ok_iff)
    qed
  qed
qed

theorem SatisfiedExpectations_cases_witness:
  "SatisfiedExpectations (ex_time 5) NewContExpectations ''rc'' \<and>
   SatisfiedExpectations (ex_time 5) (ex_store 0 (- 1)) ''rc'' \<and>
   SatisfiedExpectations (ex_time 300000000001) (ex_store 2 0) ''rc'' \<and>
   SatisfiedExpectations (ex_time 5) ex_faulty_store ''rc'' \<and>
   \<not> SatisfiedExpectations (ex_time 5) (ex_store 2 0) ''rc'' \<and>
   \<not> SatisfiedExpectations (ex_time 300000000000) (ex_store 0 1) ''rc''"
  using
    SatisfiedExpectations_cases [where r = NewContExpectations and k = "''rc''" and now = "ex_time 5"]
    SatisfiedExpectations_cases [where r = "ex_store 0 (- 1)" and k = "''rc''" and now = "ex_time 5"
      and e = "ex_entry 0 (- 1)"]
    SatisfiedExpectations_cases [where r = "ex_store 2 0" and k = "''rc''"
      and now = "ex_time 300000000001" and e = "ex_entry 2 0"]
    SatisfiedExpectations_cases [where r = ex_faulty_store and k = "''rc''" and now = "ex_time 5"]
    SatisfiedExpectations_cases [where r = "ex_store 2 0" and k = "''rc''" and now = "ex_time 5"]
    SatisfiedExpectations_cases [where r = "ex_store 0 1" and k = "''rc''"
      and now = "ex_time 300000000000"]
  by (simp add: NewContExpectations_def NewStore_def ex_store_def ex_faulty_store_def ex_entry_def
      ex_time_def GetByKey_def)

lemma SetExpectations_ok:
  "writeFault r k = None \<Longrightarrow>
   SetExpectations now r k a d =
     (None, r\<lparr>items := (items r)(k \<mapsto> \<lparr>add = a, del = d, key = k, timestamp = now\<rparr>)\<rparr>)"
  by (simp add: SetExpectations_def Add_store_def ExpKeyFunc_def Let_def)

lemma SetExpectations_rejected:
  "writeFault r k = Some e \<Longrightarrow> SetExpectations now r k a d = (Some e, r)"
  by (simp add: SetExpectations_def Add_store_def ExpKeyFunc_def Let_def)

text \<open>
  C2. On a store that accepts the write, \<open>SetExpectations\<close>, \<open>ExpectCreations\<close> and
  \<open>ExpectDeletions\<close> return no error and put, under the key, a new entry made of the
  given counters and the current time, whatever was there before. So
  \<open>ExpectDeletions(key, 3)\<close> at time \<open>t1\<close> followed by \<open>ExpectCreations(key, 1)\<close> at
  time \<open>t2\<close> leaves the entry with add = 1, del = 0 and timestamp \<open>t2\<close>.
\<close>

theorem SetExpectations_overwrites:
  "writeFault r k = None \<Longrightarrow>
   SetExpectations now r k a d =
     (None, r\<lparr>items := (items r)(k \<mapsto> \<lparr>add = a, del = d, key = k, timestamp = now\<rparr>)\<rparr>) \<and>
   ExpectCreations now r k a =
     (None, r\<lparr>items := (items r)(k \<mapsto> \<lparr>add = a, del = 0, key = k, timestamp = now\<rparr>)\<rparr>) \<and>
   ExpectDeletions now r k d =
     (None, r\<lparr>items := (items r)(k \<mapsto> \<lparr>add = 0, del = d, key = k, timestamp = now\<rparr>)\<rparr>) \<and>
   fst (ExpectDeletions t1 r k 3) = None \<and>
   fst (ExpectCreations t2 (snd (ExpectDeletions t1 r k 3)) k 1) = None \<and>
   items (snd (ExpectCreations t2 (snd (ExpectDeletions t1 r k 3)) k 1)) k =
     Some \<lparr>add = 1, del = 0, key = k, timestamp = t2\<rparr>"
  by (simp add: ExpectCreations_def ExpectDeletions_def SetExpectations_ok)

theorem SetExpectations_overwrites_witness:
  "writeFault (ex_store 7 7) ''rc'' = None \<and>
   items (snd (ExpectCreations (ex_time 20) (snd (ExpectDeletions (ex_time 10) (ex_store 7 7) ''rc'' 3))
     ''rc'' 1)) ''rc'' =
     Some \<lparr>add = 1, del = 0, key = ''rc'', timestamp = ex_time 20\<rparr>"
proof -
  have h: "writeFault (ex_store 7 7) ''rc'' = None" by (simp add: ex_store_def)
  show ?thesis
    using h SetExpectations_overwrites [OF h, where ?t1.0 = "ex_time 10" and ?t2.0 = "ex_time 20"]
    by blast
qed

text \<open>
  C10. \<open>GetExpectations\<close> never returns an error: when \<open>GetByKey\<close> fails it returns
  \<open>(nil, false, nil)\<close>, which is also what it returns for the same store with the
  key's entry and fault removed, and \<open>SatisfiedExpectations\<close> never writes the
  error line to the log.
\<close>

theorem GetExpectations_swallows_error:
  "snd (snd (GetExpectations r k)) = None \<and>
   (snd (snd (GetByKey r k)) \<noteq> None \<longrightarrow>
      GetExpectations r k = (None, False, None) \<and>
      GetExpectations r k =
        GetExpectations (r\<lparr>items := (items r)(k := None), readFault := (readFault r)(k := None)\<rparr>) k) \<and>
   (\<forall>e. fst (SatisfiedExpectations_log now r k) \<noteq> LogErrorForcingSync e)"
proof (intro conjI impI allI)
  show "snd (snd (GetExpectations r k)) = None" by (rule GetExpectations_err_None)
next
  assume "snd (snd (GetByKey r k)) \<noteq> None"
  then have "readFault r k \<noteq> None" using GetByKey_err_iff [of r k] by blast
  then obtain f where f: "readFault r k = Some f" by blast
  then show a: "GetExpectations r k = (None, False, None)" by (rule GetExpectations_fault)
  show "GetExpectations r k =
        GetExpectations (r\<lparr>items := (items r)(k := None), readFault := (readFault r)(k := None)\<rparr>) k"
    by (simp add: a GetExpectations_absent)
next
  fix e
  obtain x b where g: "GetExpectations r k = (x, b, None)"
    using GetExpectations_err_None [of r k] by (cases "GetExpectations r k") auto
  show "fst (SatisfiedExpectations_log now r k) \<noteq> LogErrorForcingSync e"
    by (simp add: SatisfiedExpectations_log_def g split: option.splits bool.splits)
qed

theorem GetExpectations_swallows_error_witness:
  "snd (snd (GetByKey ex_faulty_store ''rc'')) \<noteq> None \<and>
   GetExpectations ex_faulty_store ''rc'' = (None, False, None) \<and>
   fst (SatisfiedExpectations_log (ex_time 5) ex_faulty_store ''rc'') = LogNeverRecorded ''rc''"
proof -
  have h: "snd (snd (GetByKey ex_faulty_store ''rc'')) \<noteq> None"
    by (simp add: GetByKey_def ex_faulty_store_def)
  have g: "GetExpectations ex_faulty_store ''rc'' = (None, False, None)"
    using h GetExpectations_swallows_error [of ex_faulty_store "''rc''"] by blast
  show ?thesis using h g by (simp add: SatisfiedExpectations_log_def)
qed

section \<open>UID tracking\<close>

lemma Insert_all_set: "Insert_all s ks = s \<union> set ks"
  by (induction ks arbitrary: s) auto

lemma GetUIDs_Some_iff:
  "GetUIDs u k = Some s \<longleftrightarrow>
     readFault (uidStore u) k = None \<and> (\<exists>e. items (uidStore u) k = Some e \<and> String e = s)"
  by (auto simp add: GetUIDs_def GetByKey_def split: option.splits prod.splits bool.splits)

lemma UID_DeletionObserved_not_member:
  "\<not> (\<exists>s. GetUIDs u k = Some s \<and> i \<in> s) \<Longrightarrow> UID_DeletionObserved u k i = u"
  by (auto simp add: UID_DeletionObserved_def split: option.splits)

lemma UID_DeletionObserved_member:
  assumes "GetUIDs u k = Some s" and "i \<in> s"
  shows "GetUIDs (UID_DeletionObserved u k i) k = Some (s - {i})"
    and "ExpectationsInterface (UID_DeletionObserved u k i) = DeletionObserved (ExpectationsInterface u) k"
proof -
  have eq: "UID_DeletionObserved u k i =
      u\<lparr>ExpectationsInterface := DeletionObserved (ExpectationsInterface u) k,
        uidStore := (uidStore u)\<lparr>items :=
          (items (uidStore u))(k := map_option (\<lambda>e. e\<lparr>String := s - {i}\<rparr>) (items (uidStore u) k))\<rparr>\<rparr>"
    using assms by (simp add: UID_DeletionObserved_def)
  from assms(1) obtain e where e: "readFault (uidStore u) k = None" "items (uidStore u) k = Some e"
    by (auto simp add: GetUIDs_Some_iff)
  show "GetUIDs (UID_DeletionObserved u k i) k = Some (s - {i})"
    by (simp add: eq GetUIDs_Some_iff e)
  show "ExpectationsInterface (UID_DeletionObserved u k i) = DeletionObserved (ExpectationsInterface u) k"
    by (simp add: eq)
qed

lemma DeletionObserved_entry:
  "GetExpectations r k = (Some e, True, None) \<Longrightarrow>
   DeletionObserved r k = r\<lparr>items := (items r)(k \<mapsto> e\<lparr>del := del e - 1\<rparr>)\<rparr>"
  by (simp add: DeletionObserved_def LowerExpectations_def Add_exp_def)

lemma DeletionObserved_get:
  "GetExpectations r k = (Some e, True, None) \<Longrightarrow>
   GetExpectations (DeletionObserved r k) k = (Some (e\<lparr>del := del e - 1\<rparr>), True, None)"
  by (simp add: DeletionObserved_entry GetExpectations_Some_iff)

text \<open>
  C3. \<open>DeletionObserved(key, identity)\<close> of the UID-tracking wrapper changes nothing
  when the identity is not in the key's tracked set. When it is, the identity is removed
  from the set and the wrapped store's \<open>DeletionObserved(key)\<close> runs, which takes 1 from
  the del counter of the key's entry. A second call with the same identity changes
  nothing.
\<close>

theorem UID_DeletionObserved_once:
  "(\<not> (\<exists>s. GetUIDs u k = Some s \<and> i \<in> s) \<longrightarrow> UID_DeletionObserved u k i = u) \<and>
   (\<forall>s. GetUIDs u k = Some s \<and> i \<in> s \<longrightarrow>
      GetUIDs (UID_DeletionObserved u k i) k = Some (s - {i}) \<and>
      ExpectationsInterface (UID_DeletionObserved u k i) = DeletionObserved (ExpectationsInterface u) k \<and>
      (\<forall>e. GetExpectations (ExpectationsInterface u) k = (Some e, True, None) \<longrightarrow>
         GetExpectations (ExpectationsInterface (UID_DeletionObserved u k i)) k =
           (Some (e\<lparr>del := del e - 1\<rparr>), True, None))) \<and>
   UID_DeletionObserved (UID_DeletionObserved u k i) k i = UID_DeletionObserved u k i"
proof (intro conjI allI impI)
  show "UID_DeletionObserved u k i = u" if "\<not> (\<exists>s. GetUIDs u k = Some s \<and> i \<in> s)"
    using that by (rule UID_DeletionObserved_not_member)
next
  fix s assume a: "GetUIDs u k = Some s \<and> i \<in> s"
  then show "GetUIDs (UID_DeletionObserved u k i) k = Some (s - {i})"
    by (simp add: UID_DeletionObserved_member)
  from a show w: "ExpectationsInterface (UID_DeletionObserved u k i) =
      DeletionObserved (ExpectationsInterface u) k"
    by (simp add: UID_DeletionObserved_member)
  fix e assume "GetExpectations (ExpectationsInterface u) k = (Some e, True, None)"
  then show "GetExpectations (ExpectationsInterface (UID_DeletionObserved u k i)) k =
           (Some (e\<lparr>del := del e - 1\<rparr>), True, None)"
    by (simp add: w DeletionObserved_get)
next
  show "UID_DeletionObserved (UID_DeletionObserved u k i) k i = UID_DeletionObserved u k i"
  proof (cases "\<exists>s. GetUIDs u k = Some s \<and> i \<in> s")
    case True
    then obtain s where s: "GetUIDs u k = Some s" "i \<in> s" by blast
    then have "GetUIDs (UID_DeletionObserved u k i) k = Some (s - {i})"
      by (rule UID_DeletionObserved_member)
    then have "\<not> (\<exists>s'. GetUIDs (UID_DeletionObserved u k i) k = Some s' \<and> i \<in> s')" by simp
    then show ?thesis by (rule UID_DeletionObserved_not_member)
  next
    case False
    then have "UID_DeletionObserved u k i = u" by (rule UID_DeletionObserved_not_member)
    then show ?thesis by simp
  qed
qed

theorem UID_DeletionObserved_once_witness:
  "GetUIDs ex_tracker ''rc'' = Some {''a'', ''b''} \<and>
   GetExpectations (ExpectationsInterface ex_tracker) ''rc'' = (Some (ex_entry 0 2), True, None) \<and>
   GetUIDs (UID_DeletionObserved ex_tracker ''rc'' ''a'') ''rc'' = Some {''b''} \<and>
   GetExpectations (ExpectationsInterface (UID_DeletionObserved ex_tracker ''rc'' ''a'')) ''rc'' =
     (Some (ex_entry 0 1), True, None) \<and>
   UID_DeletionObserved (UID_DeletionObserved ex_tracker ''rc'' ''a'') ''rc'' ''a'' =
     UID_DeletionObserved ex_tracker ''rc'' ''a'' \<and>
   UID_DeletionObserved ex_tracker ''rc'' ''c'' = ex_tracker"
proof -
  have g: "GetUIDs ex_tracker ''rc'' = Some {''a'', ''b''}"
    by (simp add: GetUIDs_def GetByKey_def ex_tracker_def)
  have x: "GetExpectations (ExpectationsInterface ex_tracker) ''rc'' = (Some (ex_entry 0 2), True, None)"
    by (simp add: GetExpectations_def GetByKey_def ex_tracker_def ex_store_def)
  have d: "{''a'', ''b''} - {''a''} = {''b''}" by auto
  have e: "(ex_entry 0 2)\<lparr>del := del (ex_entry 0 2) - 1\<rparr> = ex_entry 0 1"
    by (simp add: ex_entry_def)
  have n: "\<not> (\<exists>s. GetUIDs ex_tracker ''rc'' = Some s \<and> ''c'' \<in> s)" by (simp add: g)
  show ?thesis
    using g x d e n
      UID_DeletionObserved_once [of ex_tracker "''rc''" "''a''"]
      UID_DeletionObserved_once [of ex_tracker "''rc''" "''c''"]
    by auto
qed

lemma UID_ExpectDeletions_ok:
  "writeFault (uidStore u) k = None \<Longrightarrow>
   UID_ExpectDeletions now u k ids =
     (fst (ExpectDeletions now (ExpectationsInterface u) k (of_nat (card (set ids)))),
      u\<lparr>ExpectationsInterface :=
          snd (ExpectDeletions now (ExpectationsInterface u) k (of_nat (card (set ids)))),
        uidStore := (uidStore u)\<lparr>items :=
          (items (uidStore u))(k \<mapsto> \<lparr>String = set ids, key_uid = k\<rparr>)\<rparr>\<rparr>)"
  by (simp add: UID_ExpectDeletions_def Add_store_def UIDSetKeyFunc_def Insert_all_set Let_def
      split: prod.splits)

text \<open>
  C4, as the code has it. When the UID store accepts the write,
  \<open>ExpectDeletions(key, identities)\<close> of the wrapper puts the set of the listed
  identities under the key, whatever set was there, and calls the wrapped store's
  \<open>ExpectDeletions\<close> with the number of distinct identities, \<open>expectedUIDs.Len()\<close>;
  that number is the length of the list when the list has no repeated identity.
\<close>

theorem UID_ExpectDeletions_counts_distinct:
  "writeFault (uidStore u) k = None \<Longrightarrow>
   items (uidStore (snd (UID_ExpectDeletions now u k ids))) k =
     Some \<lparr>String = set ids, key_uid = k\<rparr> \<and>
   (fst (UID_ExpectDeletions now u k ids),
    ExpectationsInterface (snd (UID_ExpectDeletions now u k ids))) =
     ExpectDeletions now (ExpectationsInterface u) k (of_nat (card (set ids))) \<and>
   (distinct ids \<longrightarrow>
     (fst (UID_ExpectDeletions now u k ids),
      ExpectationsInterface (snd (UID_ExpectDeletions now u k ids))) =
       ExpectDeletions now (ExpectationsInterface u) k (of_nat (length ids)))"
  by (simp add: UID_ExpectDeletions_ok distinct_card)

theorem UID_ExpectDeletions_counts_distinct_witness:
  "writeFault (uidStore ex_tracker) ''rc'' = None \<and> distinct [''c'', ''d'', ''e''] \<and>
   items (uidStore (snd (UID_ExpectDeletions (ex_time 9) ex_tracker ''rc'' [''c'', ''d'', ''e'']))) ''rc'' =
     Some \<lparr>String = {''c'', ''d'', ''e''}, key_uid = ''rc''\<rparr> \<and>
   items (ExpectationsInterface
     (snd (UID_ExpectDeletions (ex_time 9) ex_tracker ''rc'' [''c'', ''d'', ''e'']))) ''rc'' =
     Some \<lparr>add = 0, del = 3, key = ''rc'', timestamp = ex_time 9\<rparr>"
proof -
  have h: "writeFault (uidStore ex_tracker) ''rc'' = None" by (simp add: ex_tracker_def)
  have d: "distinct [''c'', ''d'', ''e'']" by simp
  have w: "ExpectDeletions (ex_time 9) (ExpectationsInterface ex_tracker) ''rc'' 3 =
      (None, (ex_store 0 2)\<lparr>items := (items (ex_store 0 2))
         (''rc'' \<mapsto> \<lparr>add = 0, del = 3, key = ''rc'', timestamp = ex_time 9\<rparr>)\<rparr>)"
    by (simp add: ExpectDeletions_def SetExpectations_ok ex_tracker_def ex_store_def)
  show ?thesis
    using h d w
      UID_ExpectDeletions_counts_distinct [OF h, of "ex_time 9" "[''c'', ''d'', ''e'']"]
    by (auto simp add: prod_eq_iff)
qed

text \<open>
  C4 as stated fails on a list with a repeated identity: for \<open>["a", "a"]\<close> the
  wrapped store's del counter is set to 1, while the length of the list is 2.
\<close>

theorem UID_ExpectDeletions_length_counterexample:
  "items (ExpectationsInterface (snd (UID_ExpectDeletions (ex_time 0)
      (NewUIDTrackingContExpectations NewContExpectations) ''rc'' [''a'', ''a'']))) ''rc'' =
     Some \<lparr>add = 0, del = 1, key = ''rc'', timestamp = ex_time 0\<rparr> \<and>
   items (snd (ExpectDeletions (ex_time 0) NewContExpectations ''rc''
      (of_nat (length [''a'', ''a''])))) ''rc'' =
     Some \<lparr>add = 0, del = 2, key = ''rc'', timestamp = ex_time 0\<rparr> \<and>
   ExpectationsInterface (snd (UID_ExpectDeletions (ex_time 0)
      (NewUIDTrackingContExpectations NewContExpectations) ''rc'' [''a'', ''a''])) \<noteq>
     snd (ExpectDeletions (ex_time 0) NewContExpectations ''rc'' (of_nat (length [''a'', ''a''])))"
proof -
  have a: "items (ExpectationsInterface (snd (UID_ExpectDeletions (ex_time 0)
      (NewUIDTrackingContExpectations NewContExpectations) ''rc'' [''a'', ''a'']))) ''rc'' =
     Some \<lparr>add = 0, del = 1, key = ''rc'', timestamp = ex_time 0\<rparr>"
    by (simp add: UID_ExpectDeletions_def Add_store_def UIDSetKeyFunc_def Let_def
        NewUIDTrackingContExpectations_def NewContExpectations_def NewStore_def
        ExpectDeletions_def SetExpectations_def ExpKeyFunc_def)
  have b: "items (snd (ExpectDeletions (ex_time 0) NewContExpectations ''rc''
      (of_nat (length [''a'', ''a''])))) ''rc'' =
     Some \<lparr>add = 0, del = 2, key = ''rc'', timestamp = ex_time 0\<rparr>"
    by (simp add: Add_store_def Let_def NewContExpectations_def NewStore_def
        ExpectDeletions_def SetExpectations_def ExpKeyFunc_def)
  from a b show ?thesis by auto
qed

section \<open>Machine control: validation and remote errors\<close>

lemma validateControllerRef_iff:
  "validateControllerRef ref \<noteq> None \<longleftrightarrow>
     (ref = None \<or>
      (\<exists>x. ref = Some x \<and>
         (APIVersion x = [] \<or> Kind x = [] \<or> Controller x \<noteq> Some True \<or>
          BlockOwnerDeletion x \<noteq> Some True)))"
  by (cases ref) (auto simp add: validateControllerRef_def)

lemma validateControllerRef_ErrorString:
  "validateControllerRef ref = Some e \<Longrightarrow> \<exists>msg. e = ErrorString msg"
  by (auto simp add: validateControllerRef_def split: option.splits if_splits)

lemma GetMachineFromTemplate_Labels:
  "GetMachineFromTemplate v t obj ref = Inr m \<Longrightarrow> Labels m = getMachinesLabelSet t"
  by (auto simp add: GetMachineFromTemplate_def Let_def split: sum.splits)

lemma GetFakeMachineFromTemplate_Labels:
  "GetFakeMachineFromTemplate v uuid t obj ref = Inr m \<Longrightarrow> Labels m = getMachinesLabelSet t"
  by (auto simp add: GetFakeMachineFromTemplate_def Let_def split: sum.splits)

lemma GetMachineFromTemplate_Inl:
  "GetMachineFromTemplate v t obj ref = Inl e \<Longrightarrow> \<exists>msg. e = ErrorString msg"
  by (auto simp add: GetMachineFromTemplate_def Let_def split: sum.splits)

lemma GetFakeMachineFromTemplate_Inl:
  "GetFakeMachineFromTemplate v uuid t obj ref = Inl e \<Longrightarrow> \<exists>msg. e = ErrorString msg"
  by (auto simp add: GetFakeMachineFromTemplate_def Let_def split: sum.splits)

lemma createMachines_no_labels:
  assumes "Selector_Empty (getMachinesLabelSet t)"
  shows "\<exists>msg. createMachines v r w ns t obj ref = (Some (ErrorString msg), w)"
proof (cases "GetMachineFromTemplate v t obj ref")
  case (Inl e)
  then show ?thesis using GetMachineFromTemplate_Inl [OF Inl] by (auto simp add: createMachines_def)
next
  case (Inr m)
  then show ?thesis using assms GetMachineFromTemplate_Labels [OF Inr]
    by (simp add: createMachines_def)
qed

lemma Fake_createMachines_no_labels:
  assumes "Selector_Empty (getMachinesLabelSet t)"
  shows "\<exists>msg. Fake_createMachines v uuid r w ns t obj ref = (Some (ErrorString msg), w)"
proof (cases "GetFakeMachineFromTemplate v uuid t obj ref")
  case (Inl e)
  then show ?thesis using GetFakeMachineFromTemplate_Inl [OF Inl] by (auto simp add: Fake_createMachines_def)
next
  case (Inr m)
  then show ?thesis using assms GetFakeMachineFromTemplate_Labels [OF Inr]
    by (simp add: Fake_createMachines_def)
qed

lemma Selector_Empty_getMachinesLabelSet:
  "Selector_Empty (getMachinesLabelSet t) \<longleftrightarrow> Labels t = None \<or> Labels t = Some Map.empty"
  by (auto simp add: Selector_Empty_def getMachinesLabelSet_def copy_map_def split: option.splits)

text \<open>
  C5. \<open>validateControllerRef\<close> rejects exactly the owner references that are nil,
  have an empty APIVersion or Kind, or whose controller or block-owner-deletion flag is
  not set to true. On a rejected reference \<open>CreateMachinesWithControllerRef\<close>, real
  and fake, returns that validation error and leaves the world as it was: no remote call
  and no event. On a template whose label set is nil or empty, \<open>createMachines\<close> and
  \<open>CreateMachines\<close>, real and fake, return an error made locally and leave the world
  as it was.
\<close>

theorem validation_errors_before_remote_call:
  "(validateControllerRef ref \<noteq> None \<longleftrightarrow>
     (ref = None \<or>
      (\<exists>x. ref = Some x \<and>
         (APIVersion x = [] \<or> Kind x = [] \<or> Controller x \<noteq> Some True \<or>
          BlockOwnerDeletion x \<noteq> Some True)))) \<and>
   (validateControllerRef ref \<noteq> None \<longrightarrow>
     (\<exists>msg. validateControllerRef ref = Some (ErrorString msg)) \<and>
     CreateMachinesWithControllerRef v r w ns t obj ref = (validateControllerRef ref, w) \<and>
     Fake_CreateMachinesWithControllerRef v uuid r w ns t obj ref = (validateControllerRef ref, w)) \<and>
   (Labels t = None \<or> Labels t = Some Map.empty \<longrightarrow>
     (\<exists>msg. createMachines v r w ns t obj ref = (Some (ErrorString msg), w)) \<and>
     (\<exists>msg. CreateMachines v r w ns t obj = (Some (ErrorString msg), w)) \<and>
     (\<exists>msg. Fake_createMachines v uuid r w ns t obj ref = (Some (ErrorString msg), w)) \<and>
     (\<exists>msg. Fake_CreateMachines v uuid r w ns t obj = (Some (ErrorString msg), w)))"
proof (intro conjI impI)
  show "validateControllerRef ref \<noteq> None \<longleftrightarrow>
     (ref = None \<or>
      (\<exists>x. ref = Some x \<and>
         (APIVersion x = [] \<or> Kind x = [] \<or> Controller x \<noteq> Some True \<or>
          BlockOwnerDeletion x \<noteq> Some True)))"
    by (rule validateControllerRef_iff)
next
  assume a: "validateControllerRef ref \<noteq> None"
  then obtain e where e: "validateControllerRef ref = Some e" by blast
  then show "\<exists>msg. validateControllerRef ref = Some (ErrorString msg)"
    using validateControllerRef_ErrorString [OF e] by auto
  show "CreateMachinesWithControllerRef v r w ns t obj ref = (validateControllerRef ref, w)"
    by (simp add: CreateMachinesWithControllerRef_def e)
  show "Fake_CreateMachinesWithControllerRef v uuid r w ns t obj ref = (validateControllerRef ref, w)"
    by (simp add: Fake_CreateMachinesWithControllerRef_def e)
next
  assume "Labels t = None \<or> Labels t = Some Map.empty"
  then have l: "Selector_Empty (getMachinesLabelSet t)"
    by (simp add: Selector_Empty_getMachinesLabelSet)
  show "\<exists>msg. createMachines v r w ns t obj ref = (Some (ErrorString msg), w)"
    using l by (rule createMachines_no_labels)
  show "\<exists>msg. CreateMachines v r w ns t obj = (Some (ErrorString msg), w)"
    unfolding CreateMachines_def using l by (rule createMachines_no_labels)
  show "\<exists>msg. Fake_createMachines v uuid r w ns t obj ref = (Some (ErrorString msg), w)"
    using l by (rule Fake_createMachines_no_labels)
  show "\<exists>msg. Fake_CreateMachines v uuid r w ns t obj = (Some (ErrorString msg), w)"
    unfolding Fake_CreateMachines_def using l by (rule Fake_createMachines_no_labels)
qed

theorem validation_errors_before_remote_call_witness:
  "validateControllerRef (Some (ex_owner\<lparr>Controller := None\<rparr>)) \<noteq> None \<and>
   CreateMachinesWithControllerRef ex_NameIsDNSSubdomain ex_failing_client ex_world ''default''
     (ex_template ex_labels) (WithObjectMeta ''ms'') (Some (ex_owner\<lparr>Controller := None\<rparr>)) =
     (Some (ErrorString ''controllerRef.Controller is not set to true''), ex_world) \<and>
   Fake_CreateMachinesWithControllerRef ex_NameIsDNSSubdomain ''3f2a9c1e'' ex_failing_client ex_world
     ''default'' (ex_template ex_labels) (WithObjectMeta ''ms'')
     (Some (ex_owner\<lparr>Controller := None\<rparr>)) =
     (Some (ErrorString ''controllerRef.Controller is not set to true''), ex_world) \<and>
   Labels (ex_template (Some Map.empty)) = Some Map.empty \<and>
   (\<exists>msg. CreateMachines ex_NameIsDNSSubdomain ex_failing_client ex_world ''default''
      (ex_template (Some Map.empty)) (WithObjectMeta ''ms'') = (Some (ErrorString msg), ex_world)) \<and>
   (\<exists>msg. Fake_CreateMachines ex_NameIsDNSSubdomain ''3f2a9c1e'' ex_failing_client ex_world ''default''
      (ex_template (Some Map.empty)) (WithObjectMeta ''ms'') = (Some (ErrorString msg), ex_world))"
proof -
  have v: "validateControllerRef (Some (ex_owner\<lparr>Controller := None\<rparr>)) =
      Some (ErrorString ''controllerRef.Controller is not set to true'')"
    by (simp add: validateControllerRef_def ex_owner_def)
  have l: "Labels (ex_template (Some Map.empty)) = Some Map.empty"
    by (simp add: ex_template_def)
  show ?thesis
    using v l
      validation_errors_before_remote_call [where ref = "Some (ex_owner\<lparr>Controller := None\<rparr>)"
        and v = ex_NameIsDNSSubdomain and r = ex_failing_client and w = ex_world
        and ns = "''default''" and t = "ex_template ex_labels" and obj = "WithObjectMeta ''ms''"
        and uuid = "''3f2a9c1e''"]
      validation_errors_before_remote_call [where ref = None
        and v = ex_NameIsDNSSubdomain and r = ex_failing_client and w = ex_world
        and ns = "''default''" and t = "ex_template (Some Map.empty)" and obj = "WithObjectMeta ''ms''"
        and uuid = "''3f2a9c1e''"]
    by simp
qed

lemma createMachines_remote_error:
  "GetMachineFromTemplate v t obj ref = Inr m \<Longrightarrow> \<not> Selector_Empty (Labels m) \<Longrightarrow>
   Create_resp r ns m = Inl err \<Longrightarrow>
   createMachines v r w ns t obj ref =
     (Some err,
      w\<lparr>calls := calls w @ [CreateCall ns m],
        events := events w @ [Event obj ''Warning'' ''FailedCreate'' (''Error creating: '' @ Error_msg err)]\<rparr>)"
  by (simp add: createMachines_def Eventf_def remote_def EventTypeWarning_def FailedCreateMachineReason_def)

lemma Fake_createMachines_remote_error:
  "GetFakeMachineFromTemplate v uuid t obj ref = Inr m \<Longrightarrow> \<not> Selector_Empty (Labels m) \<Longrightarrow>
   Create_resp r ns m = Inl err \<Longrightarrow>
   Fake_createMachines v uuid r w ns t obj ref =
     (Some err,
      w\<lparr>calls := calls w @ [CreateCall ns m],
        events := events w @ [Event obj ''Warning'' ''FailedCreate'' (''Error creating: '' @ Error_msg err)]\<rparr>)"
  by (simp add: Fake_createMachines_def Eventf_def remote_def EventTypeWarning_def FailedCreateMachineReason_def)

lemma DeleteMachine_remote_error:
  "Accessor obj = Inr name \<Longrightarrow> Delete_resp r ns machineID = Some err \<Longrightarrow>
   DeleteMachine r w ns machineID obj =
     (Some (ErrorString (''unable to delete machines: '' @ Error_msg err)),
      w\<lparr>calls := calls w @ [DeleteCall ns machineID],
        events := events w @ [Event obj ''Warning'' ''FailedDelete'' (''Error deleting: '' @ Error_msg err)]\<rparr>)"
  by (simp add: DeleteMachine_def Eventf_def remote_def EventTypeWarning_def FailedDeleteMachineReason_def)

lemma Fake_DeleteMachine_remote_error:
  "Accessor obj = Inr name \<Longrightarrow> Delete_resp r ns machineID = Some err \<Longrightarrow>
   Fake_DeleteMachine r w ns machineID obj =
     (Some (ErrorString (''unable to delete machines: '' @ Error_msg err)),
      w\<lparr>calls := calls w @ [DeleteCall ns machineID],
        events := events w @ [Event obj ''Warning'' ''FailedDelete'' (''Error deleting: '' @ Error_msg err)]\<rparr>)"
  by (simp add: Fake_DeleteMachine_def Eventf_def remote_def EventTypeWarning_def FailedDeleteMachineReason_def)

text \<open>
  C6, as the code has it. When the remote create fails, \<open>CreateMachines\<close> makes the
  call, records the failure event and returns the remote error itself. When the remote
  patch fails, \<open>PatchMachine\<close> returns the remote error itself and records no event.
  When the remote delete fails, \<open>DeleteMachine\<close> records the failure event and
  returns a new error whose message is \<open>unable to delete machines: \<close> followed by the
  remote error's message. The fake control does the same.
\<close>

theorem remote_errors_returned:
  "(GetMachineFromTemplate v t obj None = Inr m \<and> \<not> Selector_Empty (Labels m) \<and>
    Create_resp r ns m = Inl err \<longrightarrow>
      CreateMachines v r w ns t obj =
        (Some err,
         w\<lparr>calls := calls w @ [CreateCall ns m],
           events := events w @
             [Event obj ''Warning'' ''FailedCreate'' (''Error creating: '' @ Error_msg err)]\<rparr>)) \<and>
   (GetFakeMachineFromTemplate v uuid t obj None = Inr m \<and> \<not> Selector_Empty (Labels m) \<and>
    Create_resp r ns m = Inl err \<longrightarrow>
      Fake_CreateMachines v uuid r w ns t obj =
        (Some err,
         w\<lparr>calls := calls w @ [CreateCall ns m],
           events := events w @
             [Event obj ''Warning'' ''FailedCreate'' (''Error creating: '' @ Error_msg err)]\<rparr>)) \<and>
   (Patch_resp r ns name data = Inl err \<longrightarrow>
      PatchMachine r w ns name data = (Some err, w\<lparr>calls := calls w @ [PatchCall ns name data]\<rparr>) \<and>
      Fake_PatchMachine r w ns name data = (Some err, w\<lparr>calls := calls w @ [PatchCall ns name data]\<rparr>)) \<and>
   (Accessor obj = Inr parent \<and> Delete_resp r ns machineID = Some err \<longrightarrow>
      DeleteMachine r w ns machineID obj =
        (Some (ErrorString (''unable to delete machines: '' @ Error_msg err)),
         w\<lparr>calls := calls w @ [DeleteCall ns machineID],
           events := events w @
             [Event obj ''Warning'' ''FailedDelete'' (''Error deleting: '' @ Error_msg err)]\<rparr>) \<and>
      Fake_DeleteMachine r w ns machineID obj =
        (Some (ErrorString (''unable to delete machines: '' @ Error_msg err)),
         w\<lparr>calls := calls w @ [DeleteCall ns machineID],
           events := events w @
             [Event obj ''Warning'' ''FailedDelete'' (''Error deleting: '' @ Error_msg err)]\<rparr>))"
  by (simp add: CreateMachines_def Fake_CreateMachines_def createMachines_remote_error
      Fake_createMachines_remote_error DeleteMachine_remote_error Fake_DeleteMachine_remote_error
      PatchMachine_def Fake_PatchMachine_def remote_def)

theorem remote_errors_returned_witness:
  "GetMachineFromTemplate ex_NameIsDNSSubdomain (ex_template ex_labels) (WithObjectMeta ''ms'') None =
     Inr ex_machine \<and>
   \<not> Selector_Empty (Labels ex_machine) \<and>
   Create_resp ex_failing_client ''default'' ex_machine = Inl ex_remote_error \<and>
   Patch_resp ex_failing_client ''default'' ''m-1'' [123, 125] = Inl ex_remote_error \<and>
   Accessor (WithObjectMeta ''ms'') = Inr ''ms'' \<and>
   Delete_resp ex_failing_client ''default'' ''m-1'' = Some ex_remote_error \<and>
   CreateMachines ex_NameIsDNSSubdomain ex_failing_client ex_world ''default'' (ex_template ex_labels)
     (WithObjectMeta ''ms'') =
     (Some ex_remote_error,
      \<lparr>calls = [CreateCall ''default'' ex_machine],
       events = [Event (WithObjectMeta ''ms'') ''Warning'' ''FailedCreate''
         ''Error creating: machine m-1 not found'']\<rparr>) \<and>
   GetFakeMachineFromTemplate ex_NameIsDNSSubdomain ''3f2a9c1e'' (ex_template ex_labels)
     (WithObjectMeta ''ms'') None = Inr ex_fake_machine \<and>
   Fake_CreateMachines ex_NameIsDNSSubdomain ''3f2a9c1e'' ex_failing_client ex_world ''default''
     (ex_template ex_labels) (WithObjectMeta ''ms'') =
     (Some ex_remote_error,
      \<lparr>calls = [CreateCall ''default'' ex_fake_machine],
       events = [Event (WithObjectMeta ''ms'') ''Warning'' ''FailedCreate''
         ''Error creating: machine m-1 not found'']\<rparr>) \<and>
   PatchMachine ex_failing_client ex_world ''default'' ''m-1'' [123, 125] =
     (Some ex_remote_error, \<lparr>calls = [PatchCall ''default'' ''m-1'' [123, 125]], events = []\<rparr>) \<and>
   DeleteMachine ex_failing_client ex_world ''default'' ''m-1'' (WithObjectMeta ''ms'') =
     (Some (ErrorString ''unable to delete machines: machine m-1 not found''),
      \<lparr>calls = [DeleteCall ''default'' ''m-1''],
       events = [Event (WithObjectMeta ''ms'') ''Warning'' ''FailedDelete''
         ''Error deleting: machine m-1 not found'']\<rparr>)"
proof -
  have g: "GetMachineFromTemplate ex_NameIsDNSSubdomain (ex_template ex_labels) (WithObjectMeta ''ms'') None =
     Inr ex_machine"
    by (simp add: GetMachineFromTemplate_def getMachinesLabelSet_def getMachinesFinalizers_def
        getMachinesAnnotationSet_def getMachinesPrefix_def copy_map_def ex_NameIsDNSSubdomain_def
        ex_template_def ex_labels_def ex_machine_def)
  have gf: "GetFakeMachineFromTemplate ex_NameIsDNSSubdomain ''3f2a9c1e'' (ex_template ex_labels)
     (WithObjectMeta ''ms'') None = Inr ex_fake_machine"
    by (simp add: GetFakeMachineFromTemplate_def getMachinesLabelSet_def getMachinesFinalizers_def
        getMachinesAnnotationSet_def getMachinesPrefix_def copy_map_def ex_NameIsDNSSubdomain_def
        ex_template_def ex_labels_def ex_machine_def ex_fake_machine_def)
  have sf: "\<not> Selector_Empty (Labels ex_fake_machine)"
    by (simp add: Selector_Empty_def ex_machine_def ex_fake_machine_def ex_labels_def)
  have cf: "Create_resp ex_failing_client ''default'' ex_fake_machine = Inl ex_remote_error"
    by (simp add: ex_failing_client_def)
  have s: "\<not> Selector_Empty (Labels ex_machine)"
    by (simp add: Selector_Empty_def ex_machine_def ex_labels_def)
  have c: "Create_resp ex_failing_client ''default'' ex_machine = Inl ex_remote_error"
    by (simp add: ex_failing_client_def)
  have p: "Patch_resp ex_failing_client ''default'' ''m-1'' [123, 125] = Inl ex_remote_error"
    by (simp add: ex_failing_client_def)
  have a: "Accessor (WithObjectMeta ''ms'') = Inr ''ms''" by simp
  have d: "Delete_resp ex_failing_client ''default'' ''m-1'' = Some ex_remote_error"
    by (simp add: ex_failing_client_def)
  have m: "Error_msg ex_remote_error = ''machine m-1 not found''"
    by (simp add: ex_remote_error_def)
  show ?thesis
    using g s c p a d m gf sf cf
      remote_errors_returned [where v = ex_NameIsDNSSubdomain and t = "ex_template ex_labels"
        and obj = "WithObjectMeta ''ms''" and m = ex_machine and r = ex_failing_client
        and ns = "''default''" and err = ex_remote_error and w = ex_world and name = "''m-1''"
        and data = "[123, 125]" and parent = "''ms''" and machineID = "''m-1''"]
      remote_errors_returned [where v = ex_NameIsDNSSubdomain and t = "ex_template ex_labels"
        and obj = "WithObjectMeta ''ms''" and m = ex_fake_machine and r = ex_failing_client
        and ns = "''default''" and err = ex_remote_error and w = ex_world and name = "''m-1''"
        and data = "[123, 125]" and parent = "''ms''" and machineID = "''m-1''"
        and uuid = "''3f2a9c1e''"]
    by (simp add: ex_world_def)
qed

text \<open>
  C6 as stated fails for \<open>DeleteMachine\<close>: the error it returns on a remote failure
  is not the remote error.
\<close>

theorem DeleteMachine_wraps_error_counterexample:
  "Delete_resp ex_failing_client ''default'' ''m-1'' = Some ex_remote_error \<and>
   fst (DeleteMachine ex_failing_client ex_world ''default'' ''m-1'' (WithObjectMeta ''ms'')) =
     Some (ErrorString ''unable to delete machines: machine m-1 not found'') \<and>
   fst (DeleteMachine ex_failing_client ex_world ''default'' ''m-1'' (WithObjectMeta ''ms'')) \<noteq>
     Some ex_remote_error"
  by (simp add: DeleteMachine_def ex_failing_client_def ex_remote_error_def)


section \<open>The deletion-priority comparator\<close>

lemma Atoi_Nil: "Atoi [] = None"
  by (simp add: Atoi_def)

lemma priority_eq:
  "(if Annotations x \<noteq> None \<and> index_map (Annotations x) k \<noteq> []
    then (case Atoi (index_map (Annotations x) k) of Some num \<Rightarrow> num | None \<Rightarrow> 3)
    else 3) = spec_priority k x"
  by (auto simp add: spec_priority_def index_map_def Atoi_Nil split: option.splits)

lemma Less_body_spec: "Less_body k a b = spec_deleted_before k a b"
  unfolding Less_body_def Let_def priority_eq spec_deleted_before_def Before_def
  by auto

text \<open>
  C7. For two indices in range, \<open>Less\<close> is the lexicographic order on (priority, phase
  rank, creation time): the priority is the annotation's value, 3 when the annotation is
  absent or does not parse; the ranks are terminating 0, failed 1, crash-loop-backoff 2,
  unknown 3, pending 4, available 5, running 6; machines equal on all three are not
  ordered, \<open>Less\<close> is false on them.
\<close>

theorem Less_is_deletion_priority:
  "i < length s \<Longrightarrow> j < length s \<Longrightarrow>
   Less k s i j = Some (spec_deleted_before k (s ! i) (s ! j)) \<and>
   (spec_priority k (s ! i) = spec_priority k (s ! j) \<and>
    phaseRank (Phase (s ! i)) = phaseRank (Phase (s ! j)) \<and>
    instant (CreationTimestamp (s ! i)) = instant (CreationTimestamp (s ! j)) \<longrightarrow>
      Less k s i j = Some False) \<and>
   phaseRank MachineTerminating = 0 \<and> phaseRank MachineFailed = 1 \<and>
   phaseRank MachineCrashLoopBackOff = 2 \<and> phaseRank MachineUnknown = 3 \<and>
   phaseRank MachinePending = 4 \<and> phaseRank MachineAvailable = 5 \<and> phaseRank MachineRunning = 6"
  by (simp add: Less_def Less_body_spec) (simp add: spec_deleted_before_def)

theorem Less_is_deletion_priority_witness:
  "2 < length ex_machines \<and> 1 < length ex_machines \<and> 0 < length ex_machines \<and>
   Less ex_prio_key ex_machines 2 1 = Some True \<and>
   Less ex_prio_key ex_machines 1 0 = Some True \<and>
   Less ex_prio_key ex_machines 2 0 = Some True \<and>
   Less ex_prio_key ex_machines 1 2 = Some False \<and>
   Less ex_prio_key ex_ties 0 1 = Some False \<and>
   Less ex_prio_key ex_ties 1 0 = Some False"
proof -
  have l: "2 < length ex_machines" "1 < length ex_machines" "0 < length ex_machines"
    by (simp_all add: ex_machines_def)
  have t: "0 < length ex_ties" "1 < length ex_ties"
    by (simp_all add: ex_ties_def)
  have a: "spec_deleted_before ex_prio_key (ex_machines ! 2) (ex_machines ! 1)" by code_simp
  have b: "spec_deleted_before ex_prio_key (ex_machines ! 1) (ex_machines ! 0)" by code_simp
  have c: "spec_deleted_before ex_prio_key (ex_machines ! 2) (ex_machines ! 0)" by code_simp
  have d: "\<not> spec_deleted_before ex_prio_key (ex_machines ! 1) (ex_machines ! 2)" by code_simp
  have e: "\<not> spec_deleted_before ex_prio_key (ex_ties ! 0) (ex_ties ! 1)" by code_simp
  have f: "\<not> spec_deleted_before ex_prio_key (ex_ties ! 1) (ex_ties ! 0)" by code_simp
  show ?thesis
    using l a b c d e f
      Less_is_deletion_priority [OF l(1) l(2), of ex_prio_key]
      Less_is_deletion_priority [OF l(2) l(3), of ex_prio_key]
      Less_is_deletion_priority [OF l(1) l(3), of ex_prio_key]
      Less_is_deletion_priority [OF l(2) l(1), of ex_prio_key]
      Less_is_deletion_priority [OF t(1) t(2), of ex_prio_key]
      Less_is_deletion_priority [OF t(2) t(1), of ex_prio_key]
    by simp
qed

section \<open>ComputeHash and the collision count\<close>

lemma prime32_inverse: "prime32 * 899433627 = 1"
  by (simp add: prime32_def)

lemma mult_prime32_inj: "x * prime32 = y * prime32 \<Longrightarrow> x = y"
proof -
  assume "x * prime32 = y * prime32"
  then have "x * prime32 * 899433627 = y * prime32 * 899433627"
    by (rule arg_cong [where f = "\<lambda>z. z * 899433627"])
  then have "x * (prime32 * 899433627) = y * (prime32 * 899433627)"
    by (simp only: mult.assoc)
  then show "x = y" by (simp only: prime32_inverse mult_1_right)
qed

lemma xor_cancel_right: "(a::32 word) XOR c = b XOR c \<Longrightarrow> a = b"
proof -
  assume "a XOR c = b XOR c"
  then have "(a XOR c) XOR c = (b XOR c) XOR c"
    by (rule arg_cong [where f = "\<lambda>z. z XOR c"])
  then show "a = b" by (simp only: xor.assoc bit.xor_self xor.right_neutral)
qed

lemma xor_cancel_left: "(c::32 word) XOR a = c XOR b \<Longrightarrow> a = b"
  using xor_cancel_right [of a c b] by (simp only: xor.commute)

lemma Write_fnv_inj: "Write_fnv h data = Write_fnv h' data \<Longrightarrow> h = h'"
proof (induction data arbitrary: h h')
  case Nil
  then show ?case by simp
next
  case (Cons c data)
  from Cons.prems
  have "Write_fnv ((h XOR ucast c) * prime32) data = Write_fnv ((h' XOR ucast c) * prime32) data"
    by simp
  then have "(h XOR ucast c) * prime32 = (h' XOR ucast c) * prime32" by (rule Cons.IH)
  then have "h XOR ucast c = h' XOR ucast c" by (rule mult_prime32_inj)
  then show ?case by (rule xor_cancel_right)
qed

lemma Write_fnv_append: "Write_fnv h (xs @ ys) = Write_fnv (Write_fnv h xs) ys"
  by (induction xs arbitrary: h) auto

lemma ucast_byte_inj: "(ucast (x::8 word) :: 32 word) = ucast (y::8 word) \<Longrightarrow> x = y"
proof -
  assume a: "(ucast x :: 32 word) = ucast y"
  have up: "is_up (ucast :: 8 word \<Rightarrow> 32 word)" by (simp add: is_up)
  have "x = ucast (ucast x :: 32 word)" by (simp add: ucast_up_ucast_id [OF up])
  also have "\<dots> = ucast (ucast y :: 32 word)" by (simp only: a)
  also have "\<dots> = y" by (simp add: ucast_up_ucast_id [OF up])
  finally show "x = y" .
qed

lemma Write_fnv_one_byte:
  assumes "x \<noteq> y"
  shows "Write_fnv h (pre @ x # post) \<noteq> Write_fnv h (pre @ y # post)"
proof
  assume "Write_fnv h (pre @ x # post) = Write_fnv h (pre @ y # post)"
  then have "Write_fnv ((Write_fnv h pre XOR ucast x) * prime32) post =
      Write_fnv ((Write_fnv h pre XOR ucast y) * prime32) post"
    by (simp add: Write_fnv_append)
  then have "(Write_fnv h pre XOR ucast x) * prime32 = (Write_fnv h pre XOR ucast y) * prime32"
    by (rule Write_fnv_inj)
  then have "Write_fnv h pre XOR ucast x = Write_fnv h pre XOR ucast y" by (rule mult_prime32_inj)
  then have "(ucast x :: 32 word) = ucast y" by (rule xor_cancel_left)
  then have "x = y" by (rule ucast_byte_inj)
  with assms show False by simp
qed

lemma small_drop_bit: "(c::32 word) < 256 \<Longrightarrow> drop_bit 8 c = 0"
  by transfer (simp add: drop_bit_eq_div take_bit_eq_mod)

lemma low_byte_decides:
  "(ucast (c :: 32 word) :: 8 word) = ucast d \<Longrightarrow> drop_bit 8 c = drop_bit 8 d \<Longrightarrow> c = d"
proof (rule bit_eqI)
  fix n
  assume a: "(ucast c :: 8 word) = ucast d" and b: "drop_bit 8 c = drop_bit 8 d"
  show "bit c n = bit d n"
  proof (cases "n < 8")
    case True
    from a have "bit (ucast c :: 8 word) n = bit (ucast d :: 8 word) n" by simp
    with True show ?thesis by (simp add: bit_simps)
  next
    case False
    from b have "bit (drop_bit 8 c) (n - 8) = bit (drop_bit 8 d) (n - 8)" by simp
    with False show ?thesis by (simp add: bit_simps)
  qed
qed

lemma PutUint32_bytes:
  "PutUint32 (replicate 8 0) c =
     [ucast c, ucast (drop_bit 8 c), ucast (drop_bit 16 c), ucast (drop_bit 24 c), 0, 0, 0, 0]"
  by (simp add: PutUint32_def numeral_eq_Suc)

lemma PutUint32_tail:
  "PutUint32 (replicate 8 0) c =
     ucast c # [ucast (drop_bit 8 c), ucast (drop_bit 8 (drop_bit 8 c)),
       ucast (drop_bit 16 (drop_bit 8 c)), 0, 0, 0, 0]"
  by (simp add: PutUint32_bytes drop_bit_drop_bit)

lemma ComputeHash_Some:
  "ComputeHash D t (Some c) = Write_fnv (ComputeHash D t None) (PutUint32 (replicate 8 0) c)"
  by (simp add: ComputeHash_def Sum32_def Let_def)

lemma ComputeHash_low_byte:
  assumes "c1 \<noteq> c2" and "drop_bit 8 c1 = drop_bit 8 c2"
  shows "ComputeHash D t (Some c1) \<noteq> ComputeHash D t (Some c2)"
proof -
  define post :: "8 word list" where
    "post = [ucast (drop_bit 8 c2), ucast (drop_bit 8 (drop_bit 8 c2)),
       ucast (drop_bit 16 (drop_bit 8 c2)), 0, 0, 0, 0]"
  have n: "(ucast c1 :: 8 word) \<noteq> ucast c2"
    using assms low_byte_decides [of c1 c2] by blast
  have e1: "PutUint32 (replicate 8 0) c1 = [] @ ucast c1 # post"
    by (simp only: PutUint32_tail assms(2) post_def append_Nil)
  have e2: "PutUint32 (replicate 8 0) c2 = [] @ ucast c2 # post"
    by (simp only: PutUint32_tail post_def append_Nil)
  show ?thesis
    unfolding ComputeHash_Some e1 e2 using n by (rule Write_fnv_one_byte)
qed

lemma PutUint32_inj:
  assumes "PutUint32 (replicate 8 0) c = PutUint32 (replicate 8 0) d"
  shows "c = d"
proof (rule bit_word_eqI)
  fix n :: nat
  assume "n < LENGTH(32)"
  then have n: "n < 32" by simp
  from assms have a: "(ucast c :: 8 word) = ucast d"
    and b: "(ucast (drop_bit 8 c) :: 8 word) = ucast (drop_bit 8 d)"
    and c: "(ucast (drop_bit 16 c) :: 8 word) = ucast (drop_bit 16 d)"
    and d: "(ucast (drop_bit 24 c) :: 8 word) = ucast (drop_bit 24 d)"
    by (simp_all add: PutUint32_bytes)
  from n consider "n < 8" | "8 \<le> n" "n < 16" | "16 \<le> n" "n < 24" | "24 \<le> n" "n < 32"
    by linarith
  then show "bit c n = bit d n"
  proof cases
    case 1
    from a have "bit (ucast c :: 8 word) n = bit (ucast d :: 8 word) n" by simp
    with 1 show ?thesis by (simp add: bit_simps)
  next
    case 2
    from b have "bit (ucast (drop_bit 8 c) :: 8 word) (n - 8) = bit (ucast (drop_bit 8 d) :: 8 word) (n - 8)"
      by simp
    moreover from 2 have "n - 8 < 8" by arith
    ultimately show ?thesis using 2 by (simp add: bit_simps)
  next
    case 3
    from c have "bit (ucast (drop_bit 16 c) :: 8 word) (n - 16) = bit (ucast (drop_bit 16 d) :: 8 word) (n - 16)"
      by simp
    moreover from 3 have "n - 16 < 8" by arith
    ultimately show ?thesis using 3 by (simp add: bit_simps)
  next
    case 4
    from d have "bit (ucast (drop_bit 24 c) :: 8 word) (n - 24) = bit (ucast (drop_bit 24 d) :: 8 word) (n - 24)"
      by simp
    moreover from 4 have "n - 24 < 8" by arith
    ultimately show ?thesis using 4 by (simp add: bit_simps)
  qed
qed

lemma ComputeHash_small:
  assumes "c1 < 256" and "c2 < 256" and "c1 \<noteq> c2"
  shows "ComputeHash D t (Some c1) \<noteq> ComputeHash D t (Some c2)"
proof -
  have "drop_bit 8 c1 = drop_bit 8 c2"
    using assms(1,2) by (simp add: small_drop_bit)
  with assms(3) show ?thesis by (rule ComputeHash_low_byte)
qed

lemma ComputeHash_one_byte:
  assumes "x \<noteq> y"
    and "PutUint32 (replicate 8 0) c1 = pre @ x # post"
    and "PutUint32 (replicate 8 0) c2 = pre @ y # post"
  shows "ComputeHash D t (Some c1) \<noteq> ComputeHash D t (Some c2)"
  unfolding ComputeHash_Some assms(2,3) using assms(1) by (rule Write_fnv_one_byte)

lemma sort_range_unique:
  assumes "distinct ks" and "distinct ks'" and "set ks = set ks'"
  shows "sort ks = sort ks'"
proof (rule sorted_distinct_set_unique)
  show "sorted (sort ks)" by (rule sorted_sort)
  show "distinct (sort ks)" using assms(1) by (simp only: distinct_sort)
  show "sorted (sort ks')" by (rule sorted_sort)
  show "distinct (sort ks')" using assms(2) by (simp only: distinct_sort)
  show "set (sort ks) = set (sort ks')" using assms(3) by (simp only: set_sort)
qed

lemma sorted_entries_order_independent:
  assumes "ranges_over ks m" and "ranges_over ks' m"
  shows "sorted_entries m ks = sorted_entries m ks'"
proof -
  from assms have "distinct ks" "distinct ks'" "set ks = set ks'"
    by (simp_all only: ranges_over_def)
  then have "sort ks = sort ks'" by (rule sort_range_unique)
  then show ?thesis by (simp only: sorted_entries_def)
qed

lemma DeepHashObject_spec_order_independent:
  assumes "Template u = Template v" and "in_memory u" and "in_memory v"
  shows "DeepHashObject_spec printer u = DeepHashObject_spec printer v"
proof -
  have ru: "ranges_over (Labels_range u) (Labels (Template v))"
    "ranges_over (Annotations_range u) (Annotations (Template v))"
    using assms(1,2) by (simp_all only: in_memory_def)
  have rv: "ranges_over (Labels_range v) (Labels (Template v))"
    "ranges_over (Annotations_range v) (Annotations (Template v))"
    using assms(3) by (simp_all only: in_memory_def)
  have l: "sorted_entries (Labels (Template v)) (Labels_range u) =
      sorted_entries (Labels (Template v)) (Labels_range v)"
    using ru(1) rv(1) by (rule sorted_entries_order_independent)
  have a: "sorted_entries (Annotations (Template v)) (Annotations_range u) =
      sorted_entries (Annotations (Template v)) (Annotations_range v)"
    using ru(2) rv(2) by (rule sorted_entries_order_independent)
  show ?thesis by (simp only: DeepHashObject_spec_def assms(1) l a)
qed

text \<open>
  C8, as the code has it. Two templates in memory that are structurally identical, in
  whatever order their maps range over the keys, get the same hash with equal collision
  counts. A collision count is written into the hasher, after the template, as eight
  bytes: its four bytes, lowest first, and four zero bytes; distinct counts have distinct
  encodings. Two counts whose encodings differ in exactly one byte give different
  hashes: so do any two distinct counts that agree above their lowest byte, among them
  any two distinct counts below 256.
\<close>

theorem ComputeHash_collision_count:
  "(Template u = Template v \<and> in_memory u \<and> in_memory v \<longrightarrow>
      ComputeHash (DeepHashObject_spec printer) u cc = ComputeHash (DeepHashObject_spec printer) v cc) \<and>
   ComputeHash D t (Some c) =
     Write_fnv (ComputeHash D t None)
       [ucast c, ucast (drop_bit 8 c), ucast (drop_bit 16 c), ucast (drop_bit 24 c), 0, 0, 0, 0] \<and>
   (PutUint32 (replicate 8 0) c1 = PutUint32 (replicate 8 0) c2 \<longrightarrow> c1 = c2) \<and>
   (c1 \<noteq> c2 \<and> drop_bit 8 c1 = drop_bit 8 c2 \<longrightarrow>
      ComputeHash D t (Some c1) \<noteq> ComputeHash D t (Some c2)) \<and>
   (c1 < 256 \<and> c2 < 256 \<and> c1 \<noteq> c2 \<longrightarrow>
      ComputeHash D t (Some c1) \<noteq> ComputeHash D t (Some c2)) \<and>
   (x \<noteq> y \<and> PutUint32 (replicate 8 0) c1 = pre @ x # post \<and>
    PutUint32 (replicate 8 0) c2 = pre @ y # post \<longrightarrow>
      ComputeHash D t (Some c1) \<noteq> ComputeHash D t (Some c2))"
proof (intro conjI impI)
  show "ComputeHash (DeepHashObject_spec printer) u cc = ComputeHash (DeepHashObject_spec printer) v cc"
    if "Template u = Template v \<and> in_memory u \<and> in_memory v"
  proof -
    from that have "Template u = Template v" and "in_memory u" and "in_memory v"
      by blast+
    then have "DeepHashObject_spec printer u = DeepHashObject_spec printer v"
      by (rule DeepHashObject_spec_order_independent)
    then show ?thesis by (simp only: ComputeHash_def)
  qed
  show "ComputeHash D t (Some c) =
     Write_fnv (ComputeHash D t None)
       [ucast c, ucast (drop_bit 8 c), ucast (drop_bit 16 c), ucast (drop_bit 24 c), 0, 0, 0, 0]"
    by (simp only: ComputeHash_Some PutUint32_bytes)
  show "c1 = c2" if "PutUint32 (replicate 8 0) c1 = PutUint32 (replicate 8 0) c2"
    using that by (rule PutUint32_inj)
  show "ComputeHash D t (Some c1) \<noteq> ComputeHash D t (Some c2)"
    if "c1 \<noteq> c2 \<and> drop_bit 8 c1 = drop_bit 8 c2"
    using that ComputeHash_low_byte [of c1 c2 D t] by blast
  show "ComputeHash D t (Some c1) \<noteq> ComputeHash D t (Some c2)"
    if "c1 < 256 \<and> c2 < 256 \<and> c1 \<noteq> c2"
    using that ComputeHash_small [of c1 c2 D t] by blast
  show "ComputeHash D t (Some c1) \<noteq> ComputeHash D t (Some c2)"
    if "x \<noteq> y \<and> PutUint32 (replicate 8 0) c1 = pre @ x # post \<and>
        PutUint32 (replicate 8 0) c2 = pre @ y # post"
    using that ComputeHash_one_byte [of x y c1 pre post c2 D t] by blast
qed

theorem ComputeHash_collision_count_witness:
  "Template ex_built_forward = Template ex_built_backward \<and>
   in_memory ex_built_forward \<and> in_memory ex_built_backward \<and>
   Labels_range ex_built_forward \<noteq> Labels_range ex_built_backward \<and>
   ComputeHash (DeepHashObject_spec ex_printer) ex_built_forward (Some 1) =
     ComputeHash (DeepHashObject_spec ex_printer) ex_built_backward (Some 1) \<and>
   (0 :: 32 word) < 256 \<and> (1 :: 32 word) < 256 \<and> (0 :: 32 word) \<noteq> 1 \<and>
   drop_bit 8 (0 :: 32 word) = drop_bit 8 (1 :: 32 word) \<and>
   PutUint32 (replicate 8 0) 0 = [0] @ 0 # [0, 0, 0, 0, 0, 0] \<and>
   PutUint32 (replicate 8 0) 256 = [0] @ 1 # [0, 0, 0, 0, 0, 0] \<and>
   ComputeHash ex_DeepHashObject ''template'' (Some 0) \<noteq>
     ComputeHash ex_DeepHashObject ''template'' (Some 1) \<and>
   ComputeHash ex_DeepHashObject ''template'' (Some 0) \<noteq>
     ComputeHash ex_DeepHashObject ''template'' (Some 256)"
proof -
  have s: "Template ex_built_forward = Template ex_built_backward"
    by (simp add: ex_built_forward_def ex_built_backward_def)
  have k: "map_keys ex_two_labels = {''app'', ''tier''}"
    by (auto simp add: map_keys_def ex_two_labels_def)
  have f: "in_memory ex_built_forward"
    by (simp add: in_memory_def ranges_over_def ex_built_forward_def ex_template_def k)
      (simp add: map_keys_def)
  have g: "in_memory ex_built_backward"
    by (simp add: in_memory_def ranges_over_def ex_built_backward_def ex_template_def k)
      (auto simp add: map_keys_def)
  have n: "Labels_range ex_built_forward \<noteq> Labels_range ex_built_backward"
    by (simp add: ex_built_forward_def ex_built_backward_def)
  have a: "(0 :: 32 word) < 256" "(1 :: 32 word) < 256" "(0 :: 32 word) \<noteq> 1" by simp_all
  have b: "drop_bit 8 (0 :: 32 word) = drop_bit 8 (1 :: 32 word)" by simp
  have c: "PutUint32 (replicate 8 0) 0 = [0] @ 0 # [0, 0, 0, 0, 0, 0]"
    by (simp add: PutUint32_bytes)
  have d: "PutUint32 (replicate 8 0) 256 = [0] @ 1 # [0, 0, 0, 0, 0, 0]"
    by (simp add: PutUint32_bytes)
  have e: "(0 :: 8 word) \<noteq> 1" by simp
  show ?thesis
    using s f g n a b c d e
      ComputeHash_collision_count [where ?c1.0 = 0 and ?c2.0 = 1 and D = ex_DeepHashObject
        and t = "''template''" and u = ex_built_forward and v = ex_built_backward
        and printer = ex_printer and cc = "Some 1"]
      ComputeHash_collision_count [where ?c1.0 = 0 and ?c2.0 = 256 and D = ex_DeepHashObject
        and t = "''template''" and x = 0 and y = 1 and pre = "[0]" and post = "[0, 0, 0, 0, 0, 0]"]
    by blast
qed

text \<open>
  The two templates in memory of the witness print to the same bytes, entries in
  ascending order of the keys; a print of the entries in the order the maps range over
  them would differ.
\<close>

lemma DeepHashObject_spec_example:
  "sorted_entries ex_two_labels [''tier'', ''app''] = [(''app'', ''web''), (''tier'', ''front'')] \<and>
   sorted_entries ex_two_labels [''app'', ''tier''] = [(''app'', ''web''), (''tier'', ''front'')] \<and>
   map (\<lambda>k. (k, index_map ex_two_labels k)) [''tier'', ''app''] \<noteq>
     map (\<lambda>k. (k, index_map ex_two_labels k)) [''app'', ''tier'']"
  by code_simp

text \<open>
  Writing a byte changes the state through its lowest byte only, so the hash with a
  collision count is the sum of a part fixed by the template and a part fixed by the
  lowest byte of the template's hash and the count.
\<close>

lemma down_32_8: "is_down (ucast :: 32 word \<Rightarrow> 8 word)"
  by (simp add: is_down)

lemma ucast_add_byte: "(ucast (a + b :: 32 word) :: 8 word) = ucast a + ucast b"
proof -
  have "(ucast (a + b) :: 8 word) = ucast (word_of_int (uint a + uint b) :: 32 word)"
    by (simp only: word_add_def)
  also have "\<dots> = word_of_int (uint a + uint b)" by (rule ucast_down_wi [OF down_32_8])
  also have "\<dots> = word_of_int (uint a) + word_of_int (uint b)" by (simp only: wi_hom_add)
  also have "\<dots> = ucast a + ucast b" by (simp only: ucast_eq)
  finally show ?thesis .
qed

lemma ucast_mult_byte: "(ucast (a * b :: 32 word) :: 8 word) = ucast a * ucast b"
proof -
  have "(ucast (a * b) :: 8 word) = ucast (word_of_int (uint a * uint b) :: 32 word)"
    by (simp only: word_mult_def)
  also have "\<dots> = word_of_int (uint a * uint b)" by (rule ucast_down_wi [OF down_32_8])
  also have "\<dots> = word_of_int (uint a) * word_of_int (uint b)" by (simp only: wi_hom_mult)
  also have "\<dots> = ucast a * ucast b" by (simp only: ucast_eq)
  finally show ?thesis .
qed

lemma ucast_xor_byte: "(ucast (w XOR ucast b :: 32 word) :: 8 word) = ucast w XOR b"
  by (rule bit_word_eqI) (auto simp add: bit_simps dest: bit_imp_le_length)

lemma xor_low_cancel: "(ucast (l::8 word) :: 32 word) XOR ucast (c XOR l) = ucast c"
  by (rule bit_word_eqI) (auto simp add: bit_simps dest: bit_imp_le_length)

lemma drop_bit_xor_byte: "drop_bit 8 (c XOR ucast (l :: 8 word)) = drop_bit 8 (c :: 32 word)"
  by (rule bit_word_eqI) (auto simp add: bit_simps dest: bit_imp_le_length)

lemma xor_byte_or: "(w :: 32 word) XOR ucast (b :: 8 word) = (w AND NOT (mask 8)) OR ucast (ucast w XOR b)"
  by (rule bit_word_eqI) (auto simp add: bit_simps dest: bit_imp_le_length)

lemma split_low_byte: "(w :: 32 word) = (w AND NOT (mask 8)) OR ucast (ucast w :: 8 word)"
  by (rule bit_word_eqI) (auto simp add: bit_simps dest: bit_imp_le_length)

lemma or_low_byte_add: "((w :: 32 word) AND NOT (mask 8)) OR ucast (v :: 8 word) = (w AND NOT (mask 8)) + ucast v"
  by (rule disjunctive_add [symmetric]) (auto simp add: bit_simps dest: bit_imp_le_length)

lemma xor_byte_add: "(w::32 word) XOR ucast (b::8 word) = w + (ucast (ucast w XOR b) - ucast (ucast w :: 8 word))"
proof -
  have a: "w XOR ucast b = (w AND NOT (mask 8)) + ucast (ucast w XOR b)"
    by (simp only: xor_byte_or [of w b] or_low_byte_add)
  have b: "w = (w AND NOT (mask 8)) + ucast (ucast w :: 8 word)"
    using split_low_byte [of w] by (simp only: or_low_byte_add)
  have "w XOR ucast b = (w AND NOT (mask 8)) + ucast (ucast w :: 8 word) +
      (ucast (ucast w XOR b) - ucast (ucast w :: 8 word))"
    by (simp only: a) simp
  then show ?thesis using b by simp
qed

lemma xor_byte_shift:
  assumes "(ucast (X :: 32 word) :: 8 word) = 0"
  shows "(X + Y) XOR ucast (b :: 8 word) = X + (Y XOR ucast b)"
proof -
  have l: "(ucast (X + Y) :: 8 word) = ucast Y"
    by (simp only: ucast_add_byte assms add_0_left)
  have "(X + Y) XOR ucast b = (X + Y) + (ucast (ucast (X + Y) XOR b) - ucast (ucast (X + Y) :: 8 word))"
    by (rule xor_byte_add)
  also have "\<dots> = X + (Y + (ucast (ucast Y XOR b) - ucast (ucast Y :: 8 word)))"
    by (simp only: l add.assoc)
  also have "\<dots> = X + (Y XOR ucast b)"
    by (simp only: xor_byte_add [symmetric])
  finally show ?thesis .
qed

lemma Write_fnv_shift:
  "(ucast (X :: 32 word) :: 8 word) = 0 \<Longrightarrow>
   Write_fnv (X + Y) data = X * prime32 ^ length data + Write_fnv Y data"
proof (induction data arbitrary: X Y)
  case Nil
  then show ?case by simp
next
  case (Cons c data)
  have z: "(ucast (X * prime32) :: 8 word) = 0"
    by (simp only: ucast_mult_byte Cons.prems mult_zero_left)
  have "Write_fnv (X + Y) (c # data) = Write_fnv ((X + (Y XOR ucast c)) * prime32) data"
    by (simp only: Write_fnv.simps xor_byte_shift [OF Cons.prems])
  also have "\<dots> = Write_fnv (X * prime32 + (Y XOR ucast c) * prime32) data"
    by (simp only: distrib_right)
  also have "\<dots> = X * prime32 * prime32 ^ length data + Write_fnv ((Y XOR ucast c) * prime32) data"
    by (rule Cons.IH [OF z])
  also have "\<dots> = X * prime32 ^ length (c # data) + Write_fnv Y (c # data)"
    by (simp only: Write_fnv.simps list.size power_Suc mult.assoc) simp
  finally show ?case .
qed

lemma Write_fnv_low_byte:
  "Write_fnv h data =
     (h - ucast (ucast h :: 8 word)) * prime32 ^ length data + Write_fnv (ucast (ucast h :: 8 word)) data"
proof -
  have up: "is_up (ucast :: 8 word \<Rightarrow> 32 word)" by (simp add: is_up)
  have "(ucast (h + - ucast (ucast h :: 8 word)) :: 8 word) =
      ucast h + ucast (- (ucast (ucast h :: 8 word) :: 32 word))"
    by (rule ucast_add_byte)
  also have "- (ucast (ucast h :: 8 word) :: 32 word) = (- 1) * ucast (ucast h :: 8 word)" by simp
  also have "(ucast ((- 1) * ucast (ucast h :: 8 word) :: 32 word) :: 8 word) =
      ucast (- 1 :: 32 word) * ucast (ucast (ucast h :: 8 word) :: 32 word)"
    by (rule ucast_mult_byte)
  also have "(ucast (ucast (ucast h :: 8 word) :: 32 word) :: 8 word) = ucast h"
    by (rule ucast_up_ucast_id [OF up])
  also have "(ucast (- 1 :: 32 word) :: 8 word) = - 1"
    by (rule bit_word_eqI) (auto simp add: bit_simps)
  finally have z: "(ucast (h - ucast (ucast h :: 8 word)) :: 8 word) = 0" by simp
  have "Write_fnv ((h - ucast (ucast h :: 8 word)) + ucast (ucast h :: 8 word)) data =
      (h - ucast (ucast h :: 8 word)) * prime32 ^ length data + Write_fnv (ucast (ucast h :: 8 word)) data"
    by (rule Write_fnv_shift [OF z])
  then show ?thesis by simp
qed

lemma PutUint32_xor_low:
  "PutUint32 (replicate 8 0) (c XOR ucast (l :: 8 word)) =
     (ucast c XOR l) # tl (PutUint32 (replicate 8 0) c)"
proof -
  have a: "(ucast (c XOR ucast l) :: 8 word) = ucast c XOR l" by (rule ucast_xor_byte)
  have b: "drop_bit 8 (c XOR ucast l) = drop_bit 8 c" by (rule drop_bit_xor_byte)
  show ?thesis
    by (simp only: PutUint32_tail a b list.sel)
qed

lemma Write_fnv_from_low_byte:
  "Write_fnv (ucast (l :: 8 word)) (PutUint32 (replicate 8 0) (c XOR ucast l)) =
   Write_fnv 0 (PutUint32 (replicate 8 0) c)"
proof -
  have "Write_fnv (ucast l) (PutUint32 (replicate 8 0) (c XOR ucast l)) =
      Write_fnv ((ucast l XOR ucast (ucast c XOR l)) * prime32) (tl (PutUint32 (replicate 8 0) c))"
    by (simp only: PutUint32_xor_low Write_fnv.simps)
  also have "\<dots> = Write_fnv ((0 XOR ucast (ucast c :: 8 word)) * prime32) (tl (PutUint32 (replicate 8 0) c))"
    by (simp only: xor_low_cancel xor.left_neutral)
  also have "\<dots> = Write_fnv 0 (PutUint32 (replicate 8 0) c)"
    by (simp only: PutUint32_tail list.sel Write_fnv.simps)
  finally show ?thesis .
qed

lemma length_PutUint32: "length (PutUint32 (replicate 8 0) c) = 8"
  by (simp add: PutUint32_bytes)

lemma ComputeHash_from_zero:
  "ComputeHash D t (Some (c XOR ucast (ucast (ComputeHash D t None) :: 8 word))) =
     (ComputeHash D t None - ucast (ucast (ComputeHash D t None) :: 8 word)) * prime32 ^ 8 +
     Write_fnv 0 (PutUint32 (replicate 8 0) c)"
  by (simp only: ComputeHash_Some Write_fnv_low_byte [of "ComputeHash D t None"]
      Write_fnv_from_low_byte length_PutUint32)

lemma collision_from_zero:
  "Write_fnv 0 (PutUint32 (replicate 8 0) 8650254) = Write_fnv 0 (PutUint32 (replicate 8 0) 1761632268)"
  by (simp add: PutUint32_bytes prime32_def)

text \<open>
  For every template, whatever bytes \<open>DeepHashObject\<close> writes for it, two distinct
  collision counts give the same hash: 8650254 and 1761632268, each with its lowest byte
  combined by exclusive or with the lowest byte of the hash of the template alone.
\<close>

lemma ComputeHash_collision_every_template:
  "8650254 XOR ucast (ucast (ComputeHash D t None) :: 8 word) \<noteq>
     1761632268 XOR (ucast (ucast (ComputeHash D t None) :: 8 word) :: 32 word) \<and>
   ComputeHash D t (Some (8650254 XOR ucast (ucast (ComputeHash D t None) :: 8 word))) =
   ComputeHash D t (Some (1761632268 XOR ucast (ucast (ComputeHash D t None) :: 8 word)))"
proof
  show "8650254 XOR ucast (ucast (ComputeHash D t None) :: 8 word) \<noteq>
     1761632268 XOR (ucast (ucast (ComputeHash D t None) :: 8 word) :: 32 word)"
  proof
    assume "8650254 XOR ucast (ucast (ComputeHash D t None) :: 8 word) =
      1761632268 XOR (ucast (ucast (ComputeHash D t None) :: 8 word) :: 32 word)"
    then have "(8650254 :: 32 word) = 1761632268" by (rule xor_cancel_right)
    then show False by simp
  qed
  show "ComputeHash D t (Some (8650254 XOR ucast (ucast (ComputeHash D t None) :: 8 word))) =
   ComputeHash D t (Some (1761632268 XOR ucast (ucast (ComputeHash D t None) :: 8 word)))"
    by (simp only: ComputeHash_from_zero collision_from_zero)
qed

text \<open>
  C8 as stated fails: the collision counts 8650245 and 1761632263 differ, and the
  template that prints as \<open>template\<close> gets the hash 3272474535 with either.
\<close>

theorem ComputeHash_collision_counterexample:
  "(8650245 :: 32 word) \<noteq> 1761632263 \<and>
   ComputeHash ex_DeepHashObject ''template'' (Some 8650245) = 3272474535 \<and>
   ComputeHash ex_DeepHashObject ''template'' (Some 1761632263) = 3272474535"
  by (simp add: ComputeHash_def ex_DeepHashObject_def New32a_def offset32_def prime32_def Sum32_def
      PutUint32_bytes)

section \<open>Node annotations: when no remote call is made\<close>

lemma attempt_extends:
  "annotation_attempt change c nodeName a (ft, w) = (e, ft', w') \<Longrightarrow>
   \<exists>rest. w' = w @ GetNode nodeName (if ft then ''0'' else []) # rest"
  by (auto simp add: annotation_attempt_def UpdateNodeAnnotations_def Let_def
      split: sum.splits if_splits prod.splits option.splits)

lemma attempt_not_first:
  "annotation_attempt change c nodeName a (ft, w) = (e, ft', w') \<Longrightarrow> \<exists>rest. w' = w @ rest"
  using attempt_extends by blast

lemma retry_extends:
  "RetryOnConflict n (annotation_attempt change c nodeName a) l (ft, w) = (e, ft', w') \<Longrightarrow>
   \<exists>rest. w' = w @ rest"
proof (induction n arbitrary: l ft w)
  case 0
  then show ?case by simp
next
  case (Suc n)
  obtain e1 ft1 w1 where a1: "annotation_attempt change c nodeName a (ft, w) = (e1, ft1, w1)"
    by (metis prod_cases3)
  then obtain r1 where r1: "w1 = w @ r1" using attempt_not_first by blast
  show ?case
  proof (cases "\<exists>err. e1 = Some err \<and> IsConflict err")
    case True
    then obtain err where err: "e1 = Some err" "IsConflict err" by blast
    with Suc.prems a1
    have "RetryOnConflict n (annotation_attempt change c nodeName a) (Some err) (ft1, w1) = (e, ft', w')"
      by simp
    then obtain r2 where "w' = w1 @ r2" using Suc.IH by blast
    with r1 show ?thesis by simp
  next
    case False
    with Suc.prems a1 have "w' = w1" by (cases e1) (auto split: if_splits)
    with r1 show ?thesis by simp
  qed
qed

lemma retry_first_read:
  "RetryOnConflict (Suc n) (annotation_attempt change c nodeName a) None (True, w) = (e, ft', w') \<Longrightarrow>
   \<exists>rest. w' = w @ GetNode nodeName ''0'' # rest"
proof -
  assume p: "RetryOnConflict (Suc n) (annotation_attempt change c nodeName a) None (True, w) = (e, ft', w')"
  obtain e1 ft1 w1 where a1: "annotation_attempt change c nodeName a (True, w) = (e1, ft1, w1)"
    by (metis prod_cases3)
  then obtain r1 where r1: "w1 = w @ GetNode nodeName ''0'' # r1"
    using attempt_extends [OF a1] by auto
  show ?thesis
  proof (cases "\<exists>err. e1 = Some err \<and> IsConflict err")
    case True
    then obtain err where err: "e1 = Some err" "IsConflict err" by blast
    with p a1
    have "RetryOnConflict n (annotation_attempt change c nodeName a) (Some err) (ft1, w1) = (e, ft', w')"
      by simp
    then obtain r2 where "w' = w1 @ r2" using retry_extends by blast
    with r1 show ?thesis by simp
  next
    case False
    with p a1 have "w' = w1" by (cases e1) (auto split: if_splits)
    with r1 show ?thesis by simp
  qed
qed

lemma AddOrUpdate_reads:
  "\<exists>rest. snd (AddOrUpdateAnnotationOnNode A c w nodeName (Some a)) = w @ GetNode nodeName ''0'' # rest"
proof -
  obtain e ft w' where r: "RetryOnConflict (Suc 4) (annotation_attempt A c nodeName a) None (True, w) = (e, ft, w')"
    by (metis prod_cases3)
  then obtain rest where "w' = w @ GetNode nodeName ''0'' # rest" using retry_first_read by blast
  moreover have "UpdateAnnotationBackoff_Steps = Suc 4" by (simp add: UpdateAnnotationBackoff_Steps_def)
  ultimately show ?thesis using r by (simp add: AddOrUpdateAnnotationOnNode_def)
qed

lemma Remove_reads:
  "nodeName \<noteq> [] \<Longrightarrow>
   \<exists>rest. snd (RemoveAnnotationsOffNode R c w nodeName (Some a)) = w @ GetNode nodeName ''0'' # rest"
proof -
  assume n: "nodeName \<noteq> []"
  obtain e ft w' where r: "RetryOnConflict (Suc 4) (annotation_attempt R c nodeName a) None (True, w) = (e, ft, w')"
    by (metis prod_cases3)
  then obtain rest where "w' = w @ GetNode nodeName ''0'' # rest" using retry_first_read by blast
  moreover have "UpdateAnnotationBackoff_Steps = Suc 4" by (simp add: UpdateAnnotationBackoff_Steps_def)
  ultimately show ?thesis using r n by (simp add: RemoveAnnotationsOffNode_def)
qed

text \<open>
  C9, as the code has it. With a nil annotation map, \<open>AddOrUpdateAnnotationOnNode\<close>
  and \<open>RemoveAnnotationsOffNode\<close> return success and make no remote call;
  \<open>RemoveAnnotationsOffNode\<close> does the same when the node name is empty. With a
  map that is not nil, empty or not, and a node name that is not empty, both begin with
  a remote read of the node.
\<close>

theorem annotations_no_op:
  "AddOrUpdateAnnotationOnNode A c w nodeName None = (None, w) \<and>
   (annotations = None \<or> nodeName = [] \<longrightarrow>
      RemoveAnnotationsOffNode R c w nodeName annotations = (None, w)) \<and>
   (nodeName \<noteq> [] \<longrightarrow>
      (\<exists>rest. snd (AddOrUpdateAnnotationOnNode A c w nodeName (Some a)) =
         w @ GetNode nodeName ''0'' # rest) \<and>
      (\<exists>rest. snd (RemoveAnnotationsOffNode R c w nodeName (Some a)) =
         w @ GetNode nodeName ''0'' # rest))"
  using AddOrUpdate_reads [of A c w nodeName a] Remove_reads [of nodeName R c w a]
  by (auto simp add: AddOrUpdateAnnotationOnNode_def RemoveAnnotationsOffNode_def
      split: option.splits)

theorem annotations_no_op_witness:
  "RemoveAnnotationsOffNode ex_RemoveAnnotation ex_node_client [] [] (Some [''zone'' \<mapsto> ''a'']) =
     (None, []) \<and>
   RemoveAnnotationsOffNode ex_RemoveAnnotation ex_node_client [] ''node-1'' None = (None, []) \<and>
   ''node-1'' \<noteq> [] \<and>
   (\<exists>rest. snd (AddOrUpdateAnnotationOnNode ex_AddOrUpdateAnnotation ex_node_client [] ''node-1''
      (Some [''zone'' \<mapsto> ''b''])) = [] @ GetNode ''node-1'' ''0'' # rest) \<and>
   (\<exists>rest. snd (RemoveAnnotationsOffNode ex_RemoveAnnotation ex_node_client [] ''node-1''
      (Some [''zone'' \<mapsto> ''b''])) = [] @ GetNode ''node-1'' ''0'' # rest)"
proof -
  have n: "''node-1'' \<noteq> []" by simp
  show ?thesis
    using n
      annotations_no_op [where R = ex_RemoveAnnotation and c = ex_node_client and w = "[]"
        and nodeName = "[]" and annotations = "Some [''zone'' \<mapsto> ''a'']"]
      annotations_no_op [where R = ex_RemoveAnnotation and c = ex_node_client and w = "[]"
        and nodeName = "''node-1''" and annotations = None and A = ex_AddOrUpdateAnnotation
        and a = "[''zone'' \<mapsto> ''b'']"]
    by blast
qed

text \<open>
  C9 as stated fails on a map that is empty but not nil: both functions read the node
  from the remote API before they find that there is nothing to change.
\<close>

theorem annotations_empty_map_counterexample:
  "AddOrUpdateAnnotationOnNode ex_AddOrUpdateAnnotation ex_node_client [] ''node-1'' (Some Map.empty) =
     (None, [GetNode ''node-1'' ''0'']) \<and>
   RemoveAnnotationsOffNode ex_RemoveAnnotation ex_node_client [] ''node-1'' (Some Map.empty) =
     (None, [GetNode ''node-1'' ''0''])"
  by (simp add: AddOrUpdateAnnotationOnNode_def RemoveAnnotationsOffNode_def
      UpdateAnnotationBackoff_Steps_def numeral_eq_Suc annotation_attempt_def ex_node_client_def
      ex_AddOrUpdateAnnotation_def ex_RemoveAnnotation_def ex_node_def Let_def)

end
